theory Spec2Isabelle
  imports Complex_Main
begin

section \<open>Values that flow through the disentangle drivers\<close>

text \<open>
  The module \<^verbatim>\<open>disentangle_trunc_error.py\<close> holds four drivers and two
  dispatchers. They wire a tensor, an initial unitary, an iterate-construction closure
  and a manifold into an optimizer engine, record diagnostics and return what the
  engine produced. The arrays are modelled by their shape and their row-major entries.
\<close>

record 'a ndarray =
  shape :: "nat list"
  entries :: "'a list"

text \<open>
  Python values. An instance of a class that is defined outside this module
  (the iterates of \<^verbatim>\<open>truncErrorIterate\<close>, the manifold of
  \<^verbatim>\<open>stiefel_manifold\<close>) is represented by the constructor call that
  creates it: the class name, the positional arguments and the keyword arguments,
  exactly as the call is written.
\<close>

datatype pyval =
    PyNone
  | PyBool bool
  | PyInt int
  | PyFloat real
  | PyStr string
  | PyTuple "pyval list"
  | PyList "pyval list"
  | PyArray "complex ndarray"
  | PyObject string "pyval list" "(string \<times> pyval) list"

type_synonym kwargs = "(string \<times> pyval) list"

type_synonym debug_dict = "string \<rightharpoonup> pyval"

datatype error =
    ValueError
  | TypeError
  | IndexError
  | AttributeError
  | NotImplementedError string
  | EngineError string

datatype DebugLevel =
    LOG_PER_ITERATION_DEBUG_INFO_DISENTANGLER_TRIPARTITE_DECOMPOSITION
  | LOG_DISENTANGLER_TRIPARTITE_DECOMPOSITION_ITERATION_INFO

subsection \<open>numpy\<close>

text \<open>\<^verbatim>\<open>np.eye(n)\<close>: ones where the row index equals the column index.\<close>

definition np_eye :: "nat \<Rightarrow> real ndarray" where
  "np_eye n =
     \<lparr>shape = [n, n],
      entries = map (\<lambda>k. if k div n = k mod n then 1 else 0) [0..<n * n]\<rparr>"

definition astype_complex128 :: "real ndarray \<Rightarrow> complex ndarray" where
  "astype_complex128 a = \<lparr>shape = shape a, entries = map complex_of_real (entries a)\<rparr>"

text \<open>\<^verbatim>\<open>np.reshape\<close> keeps the entries and raises when the sizes differ.\<close>

definition np_reshape :: "'a ndarray \<Rightarrow> nat list \<Rightarrow> error + 'a ndarray" where
  "np_reshape a newshape =
     (if prod_list newshape = length (entries a)
      then Inr \<lparr>shape = newshape, entries = entries a\<rparr>
      else Inl ValueError)"

text \<open>Reading a 4-index array at \<open>[a, b, c, d]\<close> (row-major, indices in range).\<close>

definition at4 :: "'a ndarray \<Rightarrow> nat \<Rightarrow> nat \<Rightarrow> nat \<Rightarrow> nat \<Rightarrow> 'a" where
  "at4 A a b c d =
     entries A ! (((a * (shape A ! 1) + b) * (shape A ! 2) + c) * (shape A ! 3) + d)"

definition shape_tuple :: "nat list \<Rightarrow> pyval" where
  "shape_tuple s = PyTuple (map (\<lambda>n. PyInt (int n)) s)"

subsection \<open>Keyword arguments\<close>

text \<open>
  A parameter with a default takes the keyword of that name when the call has one;
  the keywords that name no parameter are collected into \<^verbatim>\<open>**kwargs\<close>.
\<close>

datatype 'a param = Omitted | Given 'a

definition or_default :: "'a \<Rightarrow> 'a param \<Rightarrow> 'a" where
  "or_default d p = (case p of Omitted \<Rightarrow> d | Given v \<Rightarrow> v)"

definition keyword :: "string \<Rightarrow> pyval \<Rightarrow> kwargs \<Rightarrow> pyval" where
  "keyword name d kw = (case map_of kw name of None \<Rightarrow> d | Some v \<Rightarrow> v)"

definition collect :: "string list \<Rightarrow> kwargs \<Rightarrow> kwargs" where
  "collect names kw = filter (\<lambda>(k, v). k \<notin> set names) kw"

definition object_kwarg :: "pyval \<Rightarrow> string \<Rightarrow> pyval option" where
  "object_kwarg obj name =
     (case obj of PyObject _ _ kw \<Rightarrow> map_of kw name | _ \<Rightarrow> None)"

definition object_args :: "pyval \<Rightarrow> pyval list" where
  "object_args obj = (case obj of PyObject _ args _ \<Rightarrow> args | _ \<Rightarrow> [])"

subsection \<open>Classes of the collaborating modules\<close>

definition TruncErrorIterateCG :: "pyval list \<Rightarrow> kwargs \<Rightarrow> pyval" where
  "TruncErrorIterateCG args kw = PyObject ''TruncErrorIterateCG'' args kw"

definition TruncErrorIterateTRM :: "pyval list \<Rightarrow> kwargs \<Rightarrow> pyval" where
  "TruncErrorIterateTRM args kw = PyObject ''TruncErrorIterateTRM'' args kw"

definition TruncErrorIterateApproxTRM :: "pyval list \<Rightarrow> kwargs \<Rightarrow> pyval" where
  "TruncErrorIterateApproxTRM args kw = PyObject ''TruncErrorIterateApproxTRM'' args kw"

definition ComplexStiefelManifold :: "pyval list \<Rightarrow> kwargs \<Rightarrow> pyval" where
  "ComplexStiefelManifold args kw = PyObject ''ComplexStiefelManifold'' args kw"

text \<open>
  What a driver hands to an optimizer engine: the manifold, the closure and the
  forwarded keywords go to the engine's constructor, the initial iterate and the
  flags to its \<^verbatim>\<open>optimize\<close>. \<open>print_warnings\<close> is \<open>None\<close> where the call
  does not pass it.
\<close>

record optimizer_call =
  manifold :: pyval
  construct_iterate :: "pyval \<Rightarrow> pyval \<Rightarrow> pyval"
  optimizer_kwargs :: kwargs
  initial_iterate :: pyval
  log_debug_info :: bool
  print_warnings :: "bool option"

text \<open>
  The engines and the debug-level predicate are not part of this module; the drivers
  are verified for every choice of them. \<open>cg_optimize\<close> stands for
  \<^verbatim>\<open>ConjugateGradientsOptimizer(...).optimize(...)\<close> and returns the final
  iterate, the iteration count, the two restart counts and the debug information;
  \<open>trm_optimize\<close> stands for \<^verbatim>\<open>TrustRegionOptimizer(...).optimize(...)\<close>
  and returns the final iterate, the iteration count and the debug information.
  Either may raise, also while binding the forwarded keywords.
\<close>

record env =
  check_debug_level :: "debug_dict option \<Rightarrow> DebugLevel \<Rightarrow> bool"
  cg_optimize ::
    "optimizer_call \<Rightarrow> error + (pyval \<times> pyval \<times> pyval \<times> pyval \<times> pyval list option)"
  trm_optimize ::
    "optimizer_call \<Rightarrow> error + (pyval \<times> pyval \<times> pyval list option)"

subsection \<open>Statements on the debug dictionary\<close>

text \<open>
  The debug dictionary is mutated in place, so the model passes it along and returns
  it, also when a statement raises: what was written before stays written.
\<close>

type_synonym statement = "debug_dict option \<Rightarrow> error + debug_dict option"

fun run_statements :: "statement list \<Rightarrow> debug_dict option \<Rightarrow> error option \<times> debug_dict option" where
  "run_statements [] d = (None, d)"
| "run_statements (s # ss) d =
     (case s d of Inl e \<Rightarrow> (Some e, d) | Inr d' \<Rightarrow> run_statements ss d')"

text \<open>
  Modelled from the spec: \<^verbatim>\<open>utility.append_to_dict_list\<close> is not in this module.
  The spec has the per-run counters appended to lists under their keys: a missing key
  starts a list, a list grows at its end, and anything else cannot be appended to.
\<close>

definition append_to_dict_list :: "string \<Rightarrow> pyval \<Rightarrow> statement" where
  "append_to_dict_list key v d =
     (case d of
        None \<Rightarrow> Inl TypeError
      | Some m \<Rightarrow>
          (case m key of
             None \<Rightarrow> Inr (Some (m(key \<mapsto> PyList [v])))
           | Some (PyList xs) \<Rightarrow> Inr (Some (m(key \<mapsto> PyList (xs @ [v]))))
           | Some _ \<Rightarrow> Inl AttributeError))"

text \<open>\<^verbatim>\<open>debug_info[i]\<close>: \<open>None\<close> is not subscriptable, a tuple is read in range.\<close>

definition getitem :: "pyval list option \<Rightarrow> nat \<Rightarrow> error + pyval" where
  "getitem t i =
     (case t of
        None \<Rightarrow> Inl TypeError
      | Some xs \<Rightarrow> if i < length xs then Inr (xs ! i) else Inl IndexError)"

text \<open>\<^verbatim>\<open>debug_dict[key] = rhs\<close>: the right-hand side is evaluated first.\<close>

definition setitem :: "string \<Rightarrow> error + pyval \<Rightarrow> statement" where
  "setitem key rhs d =
     (case rhs of
        Inl e \<Rightarrow> Inl e
      | Inr v \<Rightarrow> (case d of None \<Rightarrow> Inl TypeError | Some m \<Rightarrow> Inr (Some (m(key \<mapsto> v)))))"

definition returning :: "pyval \<Rightarrow> error option \<times> debug_dict option \<Rightarrow> (error + pyval) \<times> debug_dict option" where
  "returning v r = (case r of (None, d) \<Rightarrow> (Inr v, d) | (Some e, d) \<Rightarrow> (Inl e, d))"

section \<open>The drivers\<close>

text \<open>
  Each driver is given in two parts: what it builds and hands to the engine
  (\<open>_call\<close>), and the driver itself, which runs the engine on it, records the
  diagnostics and returns. \<open>kw\<close> holds the keyword arguments of the call other than
  \<open>debug_dict\<close>; a driver's result is paired with the debug dictionary after the call.
\<close>

subsection \<open>\<^verbatim>\<open>disentangle_CG\<close>\<close>

definition disentangle_CG_call ::
  "env \<Rightarrow> complex ndarray \<Rightarrow> int \<Rightarrow> debug_dict option \<Rightarrow> kwargs \<Rightarrow> error + optimizer_call" where
  "disentangle_CG_call env theta chi debug_dict kwargs =
     (case shape theta of
        [_, D1, D2, _] \<Rightarrow>
          (case np_reshape (astype_complex128 (np_eye (D1 * D2))) [D1, D2, D1, D2] of
             Inl e \<Rightarrow> Inl e
           | Inr U0 \<Rightarrow>
               (let construct_new_iterate =
                      (\<lambda>U _. TruncErrorIterateCG [U, PyArray theta, PyInt chi]
                         [(''chi_max'', PyNone), (''N_iters_svd'', PyNone),
                          (''eps_svd'', PyInt 0), (''old_iterate'', PyNone)]);
                    manifold =
                      ComplexStiefelManifold []
                        [(''n'', PyInt (int (D1 * D2))), (''p'', PyInt (int (D1 * D2))),
                         (''shape'', shape_tuple (shape U0))];
                    log_debug_info =
                      check_debug_level env debug_dict
                        LOG_PER_ITERATION_DEBUG_INFO_DISENTANGLER_TRIPARTITE_DECOMPOSITION
                in Inr \<lparr>manifold = manifold,
                        construct_iterate = construct_new_iterate,
                        optimizer_kwargs = kwargs,
                        initial_iterate = construct_new_iterate (PyArray U0) PyNone,
                        log_debug_info = log_debug_info,
                        print_warnings = None\<rparr>))
      | _ \<Rightarrow> Inl ValueError)"

definition disentangle_CG ::
  "env \<Rightarrow> complex ndarray \<Rightarrow> int \<Rightarrow> debug_dict option \<Rightarrow> kwargs
     \<Rightarrow> (error + pyval) \<times> debug_dict option" where
  "disentangle_CG env theta chi debug_dict kwargs =
     (case disentangle_CG_call env theta chi debug_dict kwargs of
        Inl e \<Rightarrow> (Inl e, debug_dict)
      | Inr call \<Rightarrow>
          (case cg_optimize env call of
             Inl e \<Rightarrow> (Inl e, debug_dict)
           | Inr (iterate, n, num_restarts_not_descent, num_restarts_powell, debug_info) \<Rightarrow>
               returning iterate
                 (run_statements
                    ((if check_debug_level env debug_dict
                           LOG_DISENTANGLER_TRIPARTITE_DECOMPOSITION_ITERATION_INFO
                      then [append_to_dict_list ''N_iters_disentangler'' n,
                            append_to_dict_list ''disentangler_num_restarts_not_descent''
                              num_restarts_not_descent,
                            append_to_dict_list ''disentangler_num_restarts_powell''
                              num_restarts_powell]
                      else []) @
                     (if log_debug_info call
                      then [setitem ''disentangler_iterates'' (getitem debug_info 0),
                            setitem ''disentangler_costs'' (getitem debug_info 1),
                            setitem ''disentangler_step_sizes'' (getitem debug_info 2)]
                      else []))
                    debug_dict)))"

subsection \<open>\<^verbatim>\<open>disentangle_approx_CG\<close>\<close>

definition disentangle_approx_CG_call ::
  "env \<Rightarrow> complex ndarray \<Rightarrow> int \<Rightarrow> debug_dict option \<Rightarrow> kwargs \<Rightarrow> error + optimizer_call" where
  "disentangle_approx_CG_call env theta chi debug_dict kw =
     (let N_iters_svd = keyword ''N_iters_svd'' (PyInt 5) kw;
          eps_svd = keyword ''eps_svd'' (PyFloat 0) kw;
          N_iters_svd_initial = keyword ''N_iters_svd_initial'' (PyInt 50) kw;
          kwargs = collect [''N_iters_svd'', ''eps_svd'', ''N_iters_svd_initial''] kw
      in case shape theta of
        [_, D1, D2, _] \<Rightarrow>
          (case np_reshape (astype_complex128 (np_eye (D1 * D2))) [D1, D2, D1, D2] of
             Inl e \<Rightarrow> Inl e
           | Inr U0 \<Rightarrow>
               (let construct_new_iterate =
                      (\<lambda>U old_iterate. TruncErrorIterateCG [U, PyArray theta, PyInt chi]
                         [(''chi_max'', PyNone), (''N_iters_svd'', N_iters_svd),
                          (''eps_svd'', eps_svd)]);
                    manifold =
                      ComplexStiefelManifold []
                        [(''n'', PyInt (int (D1 * D2))), (''p'', PyInt (int (D1 * D2))),
                         (''shape'', shape_tuple (shape U0))];
                    log_debug_info =
                      check_debug_level env debug_dict
                        LOG_PER_ITERATION_DEBUG_INFO_DISENTANGLER_TRIPARTITE_DECOMPOSITION
                in Inr \<lparr>manifold = manifold,
                        construct_iterate = construct_new_iterate,
                        optimizer_kwargs = kwargs,
                        initial_iterate =
                          TruncErrorIterateCG [PyArray U0, PyArray theta, PyInt chi]
                            [(''chi_max'', PyNone), (''N_iters_svd'', N_iters_svd_initial),
                             (''eps_svd'', eps_svd), (''old_iterate'', PyNone)],
                        log_debug_info = log_debug_info,
                        print_warnings = None\<rparr>))
      | _ \<Rightarrow> Inl ValueError)"

definition disentangle_approx_CG ::
  "env \<Rightarrow> complex ndarray \<Rightarrow> int \<Rightarrow> debug_dict option \<Rightarrow> kwargs
     \<Rightarrow> (error + pyval) \<times> debug_dict option" where
  "disentangle_approx_CG env theta chi debug_dict kw =
     (case disentangle_approx_CG_call env theta chi debug_dict kw of
        Inl e \<Rightarrow> (Inl e, debug_dict)
      | Inr call \<Rightarrow>
          (case cg_optimize env call of
             Inl e \<Rightarrow> (Inl e, debug_dict)
           | Inr (iterate, n, num_restarts_not_descent, num_restarts_powell, debug_info) \<Rightarrow>
               returning iterate
                 (run_statements
                    ((if check_debug_level env debug_dict
                           LOG_DISENTANGLER_TRIPARTITE_DECOMPOSITION_ITERATION_INFO
                      then [append_to_dict_list ''N_iters_disentangler'' n,
                            append_to_dict_list ''disentangler_num_restarts_not_descent''
                              num_restarts_not_descent,
                            append_to_dict_list ''disentangler_num_restarts_powell''
                              num_restarts_powell]
                      else []) @
                     (if log_debug_info call
                      then [setitem ''disentangler_iterates'' (getitem debug_info 0),
                            setitem ''disentangler_costs'' (getitem debug_info 1),
                            setitem ''disentangler_step_sizes'' (getitem debug_info 2)]
                      else []))
                    debug_dict)))"

subsection \<open>\<^verbatim>\<open>disentangle_TRM\<close>\<close>

definition disentangle_TRM_call ::
  "env \<Rightarrow> complex ndarray \<Rightarrow> int \<Rightarrow> debug_dict option \<Rightarrow> kwargs \<Rightarrow> error + optimizer_call" where
  "disentangle_TRM_call env theta chi debug_dict kwargs =
     (case shape theta of
        [_, D1, D2, _] \<Rightarrow>
          (case np_reshape (astype_complex128 (np_eye (D1 * D2))) [D1, D2, D1, D2] of
             Inl e \<Rightarrow> Inl e
           | Inr U0 \<Rightarrow>
               (let construct_new_iterate =
                      (\<lambda>U _. TruncErrorIterateTRM [U, PyArray theta, PyInt chi] []);
                    manifold =
                      ComplexStiefelManifold []
                        [(''n'', PyInt (int (D1 * D2))), (''p'', PyInt (int (D1 * D2))),
                         (''shape'', shape_tuple (shape U0))];
                    log_debug_info =
                      check_debug_level env debug_dict
                        LOG_PER_ITERATION_DEBUG_INFO_DISENTANGLER_TRIPARTITE_DECOMPOSITION
                in Inr \<lparr>manifold = manifold,
                        construct_iterate = construct_new_iterate,
                        optimizer_kwargs = kwargs,
                        initial_iterate = construct_new_iterate (PyArray U0) PyNone,
                        log_debug_info = log_debug_info,
                        print_warnings = Some False\<rparr>))
      | _ \<Rightarrow> Inl ValueError)"

definition disentangle_TRM ::
  "env \<Rightarrow> complex ndarray \<Rightarrow> int \<Rightarrow> debug_dict option \<Rightarrow> kwargs
     \<Rightarrow> (error + pyval) \<times> debug_dict option" where
  "disentangle_TRM env theta chi debug_dict kwargs =
     (case disentangle_TRM_call env theta chi debug_dict kwargs of
        Inl e \<Rightarrow> (Inl e, debug_dict)
      | Inr call \<Rightarrow>
          (case trm_optimize env call of
             Inl e \<Rightarrow> (Inl e, debug_dict)
           | Inr (iterate, n, debug_info) \<Rightarrow>
               returning iterate
                 (run_statements
                    ((if check_debug_level env debug_dict
                           LOG_DISENTANGLER_TRIPARTITE_DECOMPOSITION_ITERATION_INFO
                      then [append_to_dict_list ''N_iters_disentangler'' n]
                      else []) @
                     (if log_debug_info call
                      then [setitem ''disentangler_iterates'' (getitem debug_info 0),
                            setitem ''disentangler_costs'' (getitem debug_info 1),
                            setitem ''disentangler_deltas'' (getitem debug_info 2),
                            setitem ''disentangler_tCG_iters'' (getitem debug_info 3)]
                      else []))
                    debug_dict)))"

subsection \<open>\<^verbatim>\<open>disentangle_approx_TRM\<close>\<close>

definition disentangle_approx_TRM_call ::
  "env \<Rightarrow> complex ndarray \<Rightarrow> int \<Rightarrow> debug_dict option \<Rightarrow> kwargs \<Rightarrow> error + optimizer_call" where
  "disentangle_approx_TRM_call env theta chi debug_dict kw =
     (let chi_max = keyword ''chi_max'' PyNone kw;
          N_iters_svd = keyword ''N_iters_svd'' (PyInt 2) kw;
          eps_svd = keyword ''eps_svd'' (PyFloat 0) kw;
          N_iters_svd_initial = keyword ''N_iters_svd_initial'' (PyInt 50) kw;
          kwargs = collect [''chi_max'', ''N_iters_svd'', ''eps_svd'', ''N_iters_svd_initial''] kw;
          chi_max = (if chi_max = PyNone then PyInt chi else chi_max)
      in case shape theta of
        [_, D1, D2, _] \<Rightarrow>
          (case np_reshape (astype_complex128 (np_eye (D1 * D2))) [D1, D2, D1, D2] of
             Inl e \<Rightarrow> Inl e
           | Inr U0 \<Rightarrow>
               (let construct_new_iterate =
                      (\<lambda>U old_iterate.
                         TruncErrorIterateApproxTRM [U, PyArray theta, PyInt chi]
                           [(''chi_max'', chi_max), (''N_iters_svd'', N_iters_svd),
                            (''eps_svd'', eps_svd), (''old_iterate'', old_iterate)]);
                    manifold =
                      ComplexStiefelManifold []
                        [(''n'', PyInt (int (D1 * D2))), (''p'', PyInt (int (D1 * D2))),
                         (''shape'', shape_tuple (shape U0))];
                    log_debug_info =
                      check_debug_level env debug_dict
                        LOG_PER_ITERATION_DEBUG_INFO_DISENTANGLER_TRIPARTITE_DECOMPOSITION
                in Inr \<lparr>manifold = manifold,
                        construct_iterate = construct_new_iterate,
                        optimizer_kwargs = kwargs,
                        initial_iterate =
                          TruncErrorIterateApproxTRM [PyArray U0, PyArray theta, PyInt chi]
                            [(''chi_max'', chi_max), (''N_iters_svd'', N_iters_svd_initial),
                             (''eps_svd'', eps_svd), (''old_iterate'', PyNone)],
                        log_debug_info = log_debug_info,
                        print_warnings = Some False\<rparr>))
      | _ \<Rightarrow> Inl ValueError)"

definition disentangle_approx_TRM ::
  "env \<Rightarrow> complex ndarray \<Rightarrow> int \<Rightarrow> debug_dict option \<Rightarrow> kwargs
     \<Rightarrow> (error + pyval) \<times> debug_dict option" where
  "disentangle_approx_TRM env theta chi debug_dict kw =
     (case disentangle_approx_TRM_call env theta chi debug_dict kw of
        Inl e \<Rightarrow> (Inl e, debug_dict)
      | Inr call \<Rightarrow>
          (case trm_optimize env call of
             Inl e \<Rightarrow> (Inl e, debug_dict)
           | Inr (iterate, n, debug_info) \<Rightarrow>
               returning iterate
                 (run_statements
                    ((if check_debug_level env debug_dict
                           LOG_DISENTANGLER_TRIPARTITE_DECOMPOSITION_ITERATION_INFO
                      then [append_to_dict_list ''N_iters_disentangler'' n]
                      else []) @
                     (if log_debug_info call
                      then [setitem ''disentangler_iterates'' (getitem debug_info 0),
                            setitem ''disentangler_costs'' (getitem debug_info 1),
                            setitem ''disentangler_deltas'' (getitem debug_info 2),
                            setitem ''disentangler_tCG_iters'' (getitem debug_info 3)]
                      else []))
                    debug_dict)))"

section \<open>The dispatchers\<close>

definition quoted :: "string \<Rightarrow> string" where
  "quoted s = [CHR 0x22] @ s @ [CHR 0x22]"

definition disentangle ::
  "env \<Rightarrow> complex ndarray \<Rightarrow> int \<Rightarrow> string param \<Rightarrow> debug_dict option \<Rightarrow> kwargs
     \<Rightarrow> (error + pyval) \<times> debug_dict option" where
  "disentangle env theta chi method debug_dict kwargs =
     (let method = or_default ''trm'' method
      in if method = ''trm'' then disentangle_TRM env theta chi debug_dict kwargs
         else if method = ''cg'' then disentangle_CG env theta chi debug_dict kwargs
         else (Inl (NotImplementedError
                 (''disentangling method '' @ quoted method @
                  '' is not implemented for truncation error disentangling!'')),
               debug_dict))"

definition disentangle_approx ::
  "env \<Rightarrow> complex ndarray \<Rightarrow> int \<Rightarrow> string param \<Rightarrow> debug_dict option \<Rightarrow> kwargs
     \<Rightarrow> (error + pyval) \<times> debug_dict option" where
  "disentangle_approx env theta chi method debug_dict kwargs =
     (let method = or_default ''cg'' method
      in if method = ''trm'' then disentangle_approx_TRM env theta chi debug_dict kwargs
         else if method = ''cg'' then disentangle_approx_CG env theta chi debug_dict kwargs
         else (Inl (NotImplementedError
                 (''disentangling method '' @ quoted method @
                  '' is not implemented for approximate truncation error disentangling!'')),
               debug_dict))"

section \<open>Reading the debug dictionary, and concrete inputs\<close>

definition lookup :: "debug_dict option \<Rightarrow> string \<Rightarrow> pyval option" where
  "lookup d k = (case d of None \<Rightarrow> None | Some m \<Rightarrow> m k)"

text \<open>The list a counter is appended to: empty when the key is new.\<close>

definition items_at :: "debug_dict option \<Rightarrow> string \<Rightarrow> pyval list" where
  "items_at d k = (case lookup d k of Some (PyList xs) \<Rightarrow> xs | _ \<Rightarrow> [])"

text \<open>A statement leaves a key alone when running it never changes what the key holds.\<close>

definition leaves :: "string \<Rightarrow> statement \<Rightarrow> bool" where
  "leaves k s = (\<forall>d d'. s d = Inr d' \<longrightarrow> lookup d' k = lookup d k)"

definition cg_run_keys :: "string list" where
  "cg_run_keys =
     [''N_iters_disentangler'', ''disentangler_num_restarts_not_descent'',
      ''disentangler_num_restarts_powell'']"

definition cg_iteration_keys :: "string list" where
  "cg_iteration_keys =
     [''disentangler_iterates'', ''disentangler_costs'', ''disentangler_step_sizes'']"

definition trm_run_keys :: "string list" where
  "trm_run_keys = [''N_iters_disentangler'']"

definition trm_iteration_keys :: "string list" where
  "trm_iteration_keys =
     [''disentangler_iterates'', ''disentangler_costs'', ''disentangler_deltas'',
      ''disentangler_tCG_iters'']"

text \<open>
  A counter can be appended under a key that is new or holds a list. The statements of a
  driver can all be carried out when, under the per-run level, every per-run key is
  such a key of a dictionary that is present and, under the per-iteration level, the
  dictionary is present and the debug information has a component for every
  per-iteration key.
\<close>

definition appendable :: "debug_dict option \<Rightarrow> string \<Rightarrow> bool" where
  "appendable d k =
     (case d of
        None \<Rightarrow> False
      | Some m \<Rightarrow> (case m k of None \<Rightarrow> True | Some (PyList _) \<Rightarrow> True | Some _ \<Rightarrow> False))"

definition can_record ::
  "bool \<Rightarrow> bool \<Rightarrow> string list \<Rightarrow> string list \<Rightarrow> pyval list option \<Rightarrow> debug_dict option
     \<Rightarrow> bool" where
  "can_record per_run per_iteration run_keys iteration_keys debug_info before =
     ((if per_run then list_all (appendable before) run_keys else True)
      \<and> (if per_iteration
          then before \<noteq> None
               \<and> (case debug_info of
                    None \<Rightarrow> False
                  | Some xs \<Rightarrow> length iteration_keys \<le> length xs)
          else True))"

text \<open>
  The recording the spec asks of a driver, for the outcome of a run whose engine returned
  the counters and the debug information: keys other than the named ones keep their
  entries; the per-run keys are written only under the per-run level and the
  per-iteration keys only under the per-iteration level; the driver returns a value
  exactly when the statements can all be carried out, and then each counter has been
  appended to the list under its key and each per-iteration key holds its component of
  the debug information, whatever it held before.
\<close>

definition recorded ::
  "bool \<Rightarrow> bool \<Rightarrow> string list \<Rightarrow> string list \<Rightarrow> pyval list \<Rightarrow> pyval list option
     \<Rightarrow> debug_dict option \<Rightarrow> (error + pyval) \<times> debug_dict option \<Rightarrow> bool" where
  "recorded per_run per_iteration run_keys iteration_keys counters debug_info before outcome =
     ((\<forall>k. k \<notin> set run_keys \<union> set iteration_keys
          \<longrightarrow> lookup (snd outcome) k = lookup before k)
      \<and> (\<not> per_run \<longrightarrow> (\<forall>k \<in> set run_keys. lookup (snd outcome) k = lookup before k))
      \<and> (\<not> per_iteration
          \<longrightarrow> (\<forall>k \<in> set iteration_keys. lookup (snd outcome) k = lookup before k))
      \<and> (\<not> per_run \<and> \<not> per_iteration \<longrightarrow> snd outcome = before)
      \<and> (\<not> isl (fst outcome))
          = can_record per_run per_iteration run_keys iteration_keys debug_info before
      \<and> (per_run
          \<and> can_record per_run per_iteration run_keys iteration_keys debug_info before
          \<longrightarrow> (\<forall>(k, c) \<in> set (zip run_keys counters).
                lookup (snd outcome) k = Some (PyList (items_at before k @ [c]))))
      \<and> (per_iteration
          \<and> can_record per_run per_iteration run_keys iteration_keys debug_info before
          \<longrightarrow> (\<forall>(i, k) \<in> set (enumerate 0 iteration_keys).
                \<exists>x. getitem debug_info i = Inr x \<and> lookup (snd outcome) k = Some x)))"


definition sample_theta :: "complex ndarray" where
  "sample_theta = \<lparr>shape = [1, 2, 2, 1], entries = [1, 0, 0, 0]\<rparr>"

definition three_index_theta :: "complex ndarray" where
  "three_index_theta = \<lparr>shape = [2, 2, 1], entries = [1, 0, 0, 0]\<rparr>"

definition sample_debug_dict :: debug_dict where
  "sample_debug_dict =
     [''N_iters_disentangler'' \<mapsto> PyList [PyInt 4], ''note'' \<mapsto> PyStr ''kept'']"

definition identity_2_2 :: "complex ndarray" where
  "identity_2_2 =
     \<lparr>shape = [2, 2, 2, 2],
      entries = [1, 0, 0, 0,  0, 1, 0, 0,  0, 0, 1, 0,  0, 0, 0, 1]\<rparr>"

text \<open>
  An engine for running the drivers on concrete inputs. It takes a single step: it asks
  the closure for a new iterate at the unitary of the initial iterate, handing it the
  initial iterate as the previous one, and returns that iterate object with its counts
  and, when asked to, one entry of debug information per logged quantity. The debug
  level is on for a dictionary that is present, per level as the two flags say.
\<close>

definition one_step_env :: "bool \<Rightarrow> bool \<Rightarrow> env" where
  "one_step_env per_iteration per_run =
     \<lparr>check_debug_level =
        (\<lambda>d level.
           case d of
             None \<Rightarrow> False
           | Some _ \<Rightarrow>
               (case level of
                  LOG_PER_ITERATION_DEBUG_INFO_DISENTANGLER_TRIPARTITE_DECOMPOSITION \<Rightarrow>
                    per_iteration
                | LOG_DISENTANGLER_TRIPARTITE_DECOMPOSITION_ITERATION_INFO \<Rightarrow> per_run)),
      cg_optimize =
        (\<lambda>call.
           Inr (construct_iterate call (hd (object_args (initial_iterate call)))
                  (initial_iterate call),
                PyInt 1, PyInt 0, PyInt 0,
                if log_debug_info call
                then Some [PyList [PyStr ''U''], PyList [PyFloat 0], PyList [PyFloat 1]]
                else None)),
      trm_optimize =
        (\<lambda>call.
           Inr (construct_iterate call (hd (object_args (initial_iterate call)))
                  (initial_iterate call),
                PyInt 1,
                if log_debug_info call
                then Some [PyList [PyStr ''U''], PyList [PyFloat 0], PyList [PyFloat 1],
                           PyList [PyInt 3]]
                else None))\<rparr>"

text \<open>
  An engine that stops at once and returns the point of its initial iterate, with its
  counts and, when asked to, one entry of debug information per logged quantity.
\<close>

definition point_env :: "bool \<Rightarrow> bool \<Rightarrow> env" where
  "point_env per_iteration per_run =
     \<lparr>check_debug_level = check_debug_level (one_step_env per_iteration per_run),
      cg_optimize =
        (\<lambda>call.
           Inr (hd (object_args (initial_iterate call)), PyInt 0, PyInt 0, PyInt 0,
                if log_debug_info call
                then Some [PyList [PyStr ''U''], PyList [PyFloat 0], PyList [PyFloat 1]]
                else None)),
      trm_optimize =
        (\<lambda>call.
           Inr (hd (object_args (initial_iterate call)), PyInt 0,
                if log_debug_info call
                then Some [PyList [PyStr ''U''], PyList [PyFloat 0], PyList [PyFloat 1],
                           PyList [PyInt 3]]
                else None))\<rparr>"

section \<open>The initial unitary\<close>

lemma flat_index:
  fixes a b c d D1 D2 :: nat
  assumes "a < D1" "b < D2" "c < D1" "d < D2"
  shows "((a * D2 + b) * D1 + c) * D2 + d = (a * D2 + b) * (D1 * D2) + (c * D2 + d)"
    and "c * D2 + d < D1 * D2"
    and "a * D2 + b < D1 * D2"
proof -
  show "((a * D2 + b) * D1 + c) * D2 + d = (a * D2 + b) * (D1 * D2) + (c * D2 + d)"
    by (simp add: algebra_simps)
  have "c * D2 + d < (Suc c) * D2" using assms by simp
  also have "\<dots> \<le> D1 * D2" using assms by (intro mult_le_mono1) simp
  finally show "c * D2 + d < D1 * D2" .
  have "a * D2 + b < (Suc a) * D2" using assms by simp
  also have "\<dots> \<le> D1 * D2" using assms by (intro mult_le_mono1) simp
  finally show "a * D2 + b < D1 * D2" .
qed

lemma div_mod_flat:
  fixes q r n :: nat
  assumes "r < n"
  shows "(q * n + r) div n = q" and "(q * n + r) mod n = r"
  using assms by simp_all

lemma row_col_eq:
  fixes a b c d D2 :: nat
  assumes "b < D2" "d < D2"
  shows "(a * D2 + b = c * D2 + d) = (a = c \<and> b = d)"
proof
  assume h: "a * D2 + b = c * D2 + d"
  have "(a * D2 + b) div D2 = a" "(c * D2 + d) div D2 = c" using assms by simp_all
  with h have "a = c" by simp
  with h show "a = c \<and> b = d" by simp
qed simp

lemma U0_built:
  "np_reshape (astype_complex128 (np_eye (D1 * D2))) [D1, D2, D1, D2] =
     Inr \<lparr>shape = [D1, D2, D1, D2],
          entries = map (\<lambda>k. if k div (D1 * D2) = k mod (D1 * D2) then 1 else 0)
                      [0..<D1 * D2 * (D1 * D2)]\<rparr>"
  by (simp add: np_reshape_def astype_complex128_def np_eye_def o_def if_distrib cong: if_cong)

lemma U0_at4:
  assumes "a < D1" "b < D2" "c < D1" "d < D2"
  shows "at4 \<lparr>shape = [D1, D2, D1, D2],
          entries = map (\<lambda>k. if k div (D1 * D2) = k mod (D1 * D2) then (1::complex) else 0)
                      [0..<D1 * D2 * (D1 * D2)]\<rparr> a b c d = (if a = c \<and> b = d then 1 else 0)"
proof -
  let ?n = "D1 * D2"
  let ?k = "((a * D2 + b) * D1 + c) * D2 + d"
  have k: "?k = (a * D2 + b) * ?n + (c * D2 + d)" and c: "c * D2 + d < ?n" and r: "a * D2 + b < ?n"
    using flat_index [OF assms] by blast+
  have "?k < ?n * ?n"
  proof -
    have "?k < (Suc (a * D2 + b)) * ?n" using k c by simp
    also have "\<dots> \<le> ?n * ?n" using r by (intro mult_le_mono1) simp
    finally show ?thesis .
  qed
  moreover have "?k div ?n = a * D2 + b" by (subst k) (rule div_mod_flat(1) [OF c])
  moreover have "?k mod ?n = c * D2 + d" by (subst k) (rule div_mod_flat(2) [OF c])
  ultimately show ?thesis
    using row_col_eq [OF assms(2) assms(4), of a c]
    by (simp add: at4_def)
qed

section \<open>What each driver hands to its engine\<close>

lemma CG_call_built:
  assumes "shape theta = [l, D1, D2, r]"
  shows "\<exists>U0. np_reshape (astype_complex128 (np_eye (D1 * D2))) [D1, D2, D1, D2] = Inr U0 \<and>
     disentangle_CG_call env theta chi dd kw =
       Inr \<lparr>manifold = ComplexStiefelManifold []
                 [(''n'', PyInt (int (D1 * D2))), (''p'', PyInt (int (D1 * D2))),
                  (''shape'', shape_tuple [D1, D2, D1, D2])],
            construct_iterate = (\<lambda>U _. TruncErrorIterateCG [U, PyArray theta, PyInt chi]
                 [(''chi_max'', PyNone), (''N_iters_svd'', PyNone),
                  (''eps_svd'', PyInt 0), (''old_iterate'', PyNone)]),
            optimizer_kwargs = kw,
            initial_iterate = TruncErrorIterateCG [PyArray U0, PyArray theta, PyInt chi]
                 [(''chi_max'', PyNone), (''N_iters_svd'', PyNone),
                  (''eps_svd'', PyInt 0), (''old_iterate'', PyNone)],
            log_debug_info = check_debug_level env dd
                 LOG_PER_ITERATION_DEBUG_INFO_DISENTANGLER_TRIPARTITE_DECOMPOSITION,
            print_warnings = None\<rparr>"
  using assms by (simp add: disentangle_CG_call_def U0_built)

lemma TRM_call_built:
  assumes "shape theta = [l, D1, D2, r]"
  shows "\<exists>U0. np_reshape (astype_complex128 (np_eye (D1 * D2))) [D1, D2, D1, D2] = Inr U0 \<and>
     disentangle_TRM_call env theta chi dd kw =
       Inr \<lparr>manifold = ComplexStiefelManifold []
                 [(''n'', PyInt (int (D1 * D2))), (''p'', PyInt (int (D1 * D2))),
                  (''shape'', shape_tuple [D1, D2, D1, D2])],
            construct_iterate = (\<lambda>U _. TruncErrorIterateTRM [U, PyArray theta, PyInt chi] []),
            optimizer_kwargs = kw,
            initial_iterate = TruncErrorIterateTRM [PyArray U0, PyArray theta, PyInt chi] [],
            log_debug_info = check_debug_level env dd
                 LOG_PER_ITERATION_DEBUG_INFO_DISENTANGLER_TRIPARTITE_DECOMPOSITION,
            print_warnings = Some False\<rparr>"
  using assms by (simp add: disentangle_TRM_call_def U0_built)

lemma approx_CG_call_built:
  assumes "shape theta = [l, D1, D2, r]"
  shows "\<exists>U0. np_reshape (astype_complex128 (np_eye (D1 * D2))) [D1, D2, D1, D2] = Inr U0 \<and>
     disentangle_approx_CG_call env theta chi dd kw =
       Inr \<lparr>manifold = ComplexStiefelManifold []
                 [(''n'', PyInt (int (D1 * D2))), (''p'', PyInt (int (D1 * D2))),
                  (''shape'', shape_tuple [D1, D2, D1, D2])],
            construct_iterate = (\<lambda>U old_iterate. TruncErrorIterateCG [U, PyArray theta, PyInt chi]
                 [(''chi_max'', PyNone), (''N_iters_svd'', keyword ''N_iters_svd'' (PyInt 5) kw),
                  (''eps_svd'', keyword ''eps_svd'' (PyFloat 0) kw)]),
            optimizer_kwargs = collect [''N_iters_svd'', ''eps_svd'', ''N_iters_svd_initial''] kw,
            initial_iterate = TruncErrorIterateCG [PyArray U0, PyArray theta, PyInt chi]
                 [(''chi_max'', PyNone),
                  (''N_iters_svd'', keyword ''N_iters_svd_initial'' (PyInt 50) kw),
                  (''eps_svd'', keyword ''eps_svd'' (PyFloat 0) kw), (''old_iterate'', PyNone)],
            log_debug_info = check_debug_level env dd
                 LOG_PER_ITERATION_DEBUG_INFO_DISENTANGLER_TRIPARTITE_DECOMPOSITION,
            print_warnings = None\<rparr>"
  using assms by (simp add: disentangle_approx_CG_call_def U0_built Let_def)

lemma approx_TRM_call_built:
  assumes "shape theta = [l, D1, D2, r]"
  shows "\<exists>U0. np_reshape (astype_complex128 (np_eye (D1 * D2))) [D1, D2, D1, D2] = Inr U0 \<and>
     disentangle_approx_TRM_call env theta chi dd kw =
       Inr \<lparr>manifold = ComplexStiefelManifold []
                 [(''n'', PyInt (int (D1 * D2))), (''p'', PyInt (int (D1 * D2))),
                  (''shape'', shape_tuple [D1, D2, D1, D2])],
            construct_iterate = (\<lambda>U old_iterate.
               TruncErrorIterateApproxTRM [U, PyArray theta, PyInt chi]
                 [(''chi_max'', if keyword ''chi_max'' PyNone kw = PyNone then PyInt chi
                                else keyword ''chi_max'' PyNone kw),
                  (''N_iters_svd'', keyword ''N_iters_svd'' (PyInt 2) kw),
                  (''eps_svd'', keyword ''eps_svd'' (PyFloat 0) kw),
                  (''old_iterate'', old_iterate)]),
            optimizer_kwargs =
              collect [''chi_max'', ''N_iters_svd'', ''eps_svd'', ''N_iters_svd_initial''] kw,
            initial_iterate = TruncErrorIterateApproxTRM [PyArray U0, PyArray theta, PyInt chi]
                 [(''chi_max'', if keyword ''chi_max'' PyNone kw = PyNone then PyInt chi
                                else keyword ''chi_max'' PyNone kw),
                  (''N_iters_svd'', keyword ''N_iters_svd_initial'' (PyInt 50) kw),
                  (''eps_svd'', keyword ''eps_svd'' (PyFloat 0) kw), (''old_iterate'', PyNone)],
            log_debug_info = check_debug_level env dd
                 LOG_PER_ITERATION_DEBUG_INFO_DISENTANGLER_TRIPARTITE_DECOMPOSITION,
            print_warnings = Some False\<rparr>"
  using assms by (simp add: disentangle_approx_TRM_call_def U0_built Let_def)

lemma upt16: "[0..<16] = [0,1,2,3,4,5,6,7,8,9,10,11,12,13,14,15::nat]"
  by code_simp

lemma U0_concrete:
  "np_reshape (astype_complex128 (np_eye 4)) [2, 2, 2, 2] = Inr identity_2_2"
  by (simp add: np_reshape_def astype_complex128_def np_eye_def identity_2_2_def upt16)

lemma map_of_collect:
  "map_of (collect names kw) k = (if k \<in> set names then None else map_of kw k)"
  by (induction kw) (auto simp: collect_def)

lemma keyword_collect:
  "name \<notin> set names \<Longrightarrow> keyword name d (collect names kw) = keyword name d kw"
  by (simp add: keyword_def map_of_collect)

lemma returning_value: "fst (returning v r) = Inr w \<Longrightarrow> w = v"
  by (auto simp: returning_def split: prod.splits option.splits)

section \<open>Claims about the entry points\<close>

text \<open>
  C9: every driver requires a tensor of exactly four dimensions. For a theta whose shape
  does not have exactly four components, destructuring \<^verbatim>\<open>theta.shape\<close> raises
  \<open>ValueError\<close>: nothing is built for the engine, the engine is not run (the outcome
  is the same for every engine), and the debug dictionary is as it was.
\<close>

theorem shape_destructuring_fails:
  assumes "length (shape theta) \<noteq> 4"
  shows "disentangle_CG_call env theta chi dd kw = Inl ValueError
    \<and> disentangle_approx_CG_call env theta chi dd kw = Inl ValueError
    \<and> disentangle_TRM_call env theta chi dd kw = Inl ValueError
    \<and> disentangle_approx_TRM_call env theta chi dd kw = Inl ValueError
    \<and> disentangle_CG env theta chi dd kw = (Inl ValueError, dd)
    \<and> disentangle_approx_CG env theta chi dd kw = (Inl ValueError, dd)
    \<and> disentangle_TRM env theta chi dd kw = (Inl ValueError, dd)
    \<and> disentangle_approx_TRM env theta chi dd kw = (Inl ValueError, dd)"
proof -
  have 1: "disentangle_CG_call env theta chi dd kw = Inl ValueError"
    unfolding disentangle_CG_call_def using assms by (auto split: list.splits)
  have 2: "disentangle_approx_CG_call env theta chi dd kw = Inl ValueError"
    unfolding disentangle_approx_CG_call_def Let_def using assms by (auto split: list.splits)
  have 3: "disentangle_TRM_call env theta chi dd kw = Inl ValueError"
    unfolding disentangle_TRM_call_def using assms by (auto split: list.splits)
  have 4: "disentangle_approx_TRM_call env theta chi dd kw = Inl ValueError"
    unfolding disentangle_approx_TRM_call_def Let_def using assms by (auto split: list.splits)
  show ?thesis
    by (simp add: 1 2 3 4 disentangle_CG_def disentangle_approx_CG_def disentangle_TRM_def
        disentangle_approx_TRM_def)
qed

theorem shape_destructuring_fails_witness:
  "length (shape three_index_theta) \<noteq> 4
   \<and> disentangle_CG_call (one_step_env True True) three_index_theta 2 (Some Map.empty) [] = Inl ValueError
   \<and> disentangle_TRM (one_step_env True True) three_index_theta 2 (Some Map.empty) []
       = (Inl ValueError, Some Map.empty)
   \<and> disentangle_approx_TRM (one_step_env True True) three_index_theta 2 (Some Map.empty) []
       = (Inl ValueError, Some Map.empty)"
  using shape_destructuring_fails [of three_index_theta "one_step_env True True" 2 "Some Map.empty" "[]"]
  by (simp add: three_index_theta_def)

text \<open>
  C3: for every method string other than \<open>trm\<close> and \<open>cg\<close>, both dispatchers raise the
  unsupported-method error. The outcome does not depend on the engines, so no
  optimization work is done; the debug dictionary is unchanged and no value is returned.
\<close>

theorem unsupported_method:
  assumes "m \<noteq> ''trm''" and "m \<noteq> ''cg''"
  shows "disentangle env theta chi (Given m) dd kw =
      (Inl (NotImplementedError (''disentangling method '' @ quoted m @
          '' is not implemented for truncation error disentangling!'')), dd)
    \<and> disentangle_approx env theta chi (Given m) dd kw =
      (Inl (NotImplementedError (''disentangling method '' @ quoted m @
          '' is not implemented for approximate truncation error disentangling!'')), dd)"
  using assms by (simp add: disentangle_def disentangle_approx_def or_default_def)

theorem unsupported_method_witness:
  "''bogus'' \<noteq> ''trm'' \<and> ''bogus'' \<noteq> ''cg''
   \<and> fst (disentangle (one_step_env True True) sample_theta 2 (Given ''bogus'') (Some Map.empty) [])
       = Inl (NotImplementedError
           (''disentangling method '' @ quoted ''bogus'' @
            '' is not implemented for truncation error disentangling!''))
   \<and> snd (disentangle (one_step_env True True) sample_theta 2 (Given ''bogus'') (Some Map.empty) [])
       = Some Map.empty
   \<and> snd (disentangle_approx (one_step_env True True) sample_theta 2 (Given ''bogus'')
            (Some Map.empty) []) = Some Map.empty"
  using unsupported_method [of "''bogus''" "one_step_env True True" sample_theta 2 "Some Map.empty" "[]"]
  by simp

text \<open>
  C4: \<^verbatim>\<open>disentangle\<close> with the method omitted or \<open>trm\<close> is exactly
  \<^verbatim>\<open>disentangle_TRM\<close>, and with \<open>cg\<close> exactly \<^verbatim>\<open>disentangle_CG\<close>;
  \<^verbatim>\<open>disentangle_approx\<close> with the method omitted or \<open>cg\<close> is exactly
  \<^verbatim>\<open>disentangle_approx_CG\<close>, and with \<open>trm\<close> exactly
  \<^verbatim>\<open>disentangle_approx_TRM\<close>, for every tensor, rank, debug dictionary and forwarded
  keywords: the same result and the same debug dictionary afterwards.
\<close>

theorem dispatch:
  "disentangle env theta chi Omitted dd kw = disentangle_TRM env theta chi dd kw
   \<and> disentangle env theta chi (Given ''trm'') dd kw = disentangle_TRM env theta chi dd kw
   \<and> disentangle env theta chi (Given ''cg'') dd kw = disentangle_CG env theta chi dd kw
   \<and> disentangle_approx env theta chi Omitted dd kw = disentangle_approx_CG env theta chi dd kw
   \<and> disentangle_approx env theta chi (Given ''cg'') dd kw
       = disentangle_approx_CG env theta chi dd kw
   \<and> disentangle_approx env theta chi (Given ''trm'') dd kw
       = disentangle_approx_TRM env theta chi dd kw"
  by (simp add: disentangle_def disentangle_approx_def or_default_def)

text \<open>
  C5: every driver builds \<open>U0\<close> as the \<open>(D1*D2) x (D1*D2)\<close> complex identity matrix
  reshaped to \<open>(D1, D2, D1, D2)\<close>, with \<open>D1\<close> and \<open>D2\<close> the second and third dimensions
  of theta: \<open>U0[a, b, c, d]\<close> is one when \<open>(a, b) = (c, d)\<close> and zero otherwise. The
  iterate handed to the engine as the starting point is constructed at this \<open>U0\<close> (for
  the exact drivers by the closure itself), and the engine is run on it: what the engine
  raises there, the driver raises.
\<close>

theorem initial_unitary_is_identity:
  assumes "shape theta = [l, D1, D2, r]"
  shows "\<exists>U0. shape U0 = [D1, D2, D1, D2] \<and> length (entries U0) = D1 * D2 * (D1 * D2)
    \<and> (\<forall>a<D1. \<forall>b<D2. \<forall>c<D1. \<forall>d<D2. at4 U0 a b c d = (if a = c \<and> b = d then 1 else 0))
    \<and> (\<exists>call. disentangle_CG_call env theta chi dd kw = Inr call
          \<and> initial_iterate call = construct_iterate call (PyArray U0) PyNone
          \<and> object_args (initial_iterate call) = [PyArray U0, PyArray theta, PyInt chi]
          \<and> (\<forall>e. cg_optimize env call = Inl e
                \<longrightarrow> disentangle_CG env theta chi dd kw = (Inl e, dd)))
    \<and> (\<exists>call. disentangle_approx_CG_call env theta chi dd kw = Inr call
          \<and> object_args (initial_iterate call) = [PyArray U0, PyArray theta, PyInt chi]
          \<and> (\<forall>e. cg_optimize env call = Inl e
                \<longrightarrow> disentangle_approx_CG env theta chi dd kw = (Inl e, dd)))
    \<and> (\<exists>call. disentangle_TRM_call env theta chi dd kw = Inr call
          \<and> initial_iterate call = construct_iterate call (PyArray U0) PyNone
          \<and> object_args (initial_iterate call) = [PyArray U0, PyArray theta, PyInt chi]
          \<and> (\<forall>e. trm_optimize env call = Inl e
                \<longrightarrow> disentangle_TRM env theta chi dd kw = (Inl e, dd)))
    \<and> (\<exists>call. disentangle_approx_TRM_call env theta chi dd kw = Inr call
          \<and> object_args (initial_iterate call) = [PyArray U0, PyArray theta, PyInt chi]
          \<and> (\<forall>e. trm_optimize env call = Inl e
                \<longrightarrow> disentangle_approx_TRM env theta chi dd kw = (Inl e, dd)))"
proof -
  let ?U0 = "\<lparr>shape = [D1, D2, D1, D2],
          entries = map (\<lambda>k. if k div (D1 * D2) = k mod (D1 * D2) then (1::complex) else 0)
                      [0..<D1 * D2 * (D1 * D2)]\<rparr>"
  have built: "np_reshape (astype_complex128 (np_eye (D1 * D2))) [D1, D2, D1, D2] = Inr ?U0"
    by (rule U0_built)
  have ident: "\<forall>a<D1. \<forall>b<D2. \<forall>c<D1. \<forall>d<D2. at4 ?U0 a b c d = (if a = c \<and> b = d then 1 else 0)"
    using U0_at4 by blast
  have cg: "\<exists>call. disentangle_CG_call env theta chi dd kw = Inr call
          \<and> initial_iterate call = construct_iterate call (PyArray ?U0) PyNone
          \<and> object_args (initial_iterate call) = [PyArray ?U0, PyArray theta, PyInt chi]
          \<and> (\<forall>e. cg_optimize env call = Inl e
                \<longrightarrow> disentangle_CG env theta chi dd kw = (Inl e, dd))"
    using CG_call_built [OF assms, of env chi dd kw] built
    by (auto simp: object_args_def TruncErrorIterateCG_def disentangle_CG_def)
  have acg: "\<exists>call. disentangle_approx_CG_call env theta chi dd kw = Inr call
          \<and> object_args (initial_iterate call) = [PyArray ?U0, PyArray theta, PyInt chi]
          \<and> (\<forall>e. cg_optimize env call = Inl e
                \<longrightarrow> disentangle_approx_CG env theta chi dd kw = (Inl e, dd))"
    using approx_CG_call_built [OF assms, of env chi dd kw] built
    by (auto simp: object_args_def TruncErrorIterateCG_def disentangle_approx_CG_def)
  have trm: "\<exists>call. disentangle_TRM_call env theta chi dd kw = Inr call
          \<and> initial_iterate call = construct_iterate call (PyArray ?U0) PyNone
          \<and> object_args (initial_iterate call) = [PyArray ?U0, PyArray theta, PyInt chi]
          \<and> (\<forall>e. trm_optimize env call = Inl e
                \<longrightarrow> disentangle_TRM env theta chi dd kw = (Inl e, dd))"
    using TRM_call_built [OF assms, of env chi dd kw] built
    by (auto simp: object_args_def TruncErrorIterateTRM_def disentangle_TRM_def)
  have atrm: "\<exists>call. disentangle_approx_TRM_call env theta chi dd kw = Inr call
          \<and> object_args (initial_iterate call) = [PyArray ?U0, PyArray theta, PyInt chi]
          \<and> (\<forall>e. trm_optimize env call = Inl e
                \<longrightarrow> disentangle_approx_TRM env theta chi dd kw = (Inl e, dd))"
    using approx_TRM_call_built [OF assms, of env chi dd kw] built
    by (auto simp: object_args_def TruncErrorIterateApproxTRM_def disentangle_approx_TRM_def)
  have "shape ?U0 = [D1, D2, D1, D2] \<and> length (entries ?U0) = D1 * D2 * (D1 * D2)" by simp
  with ident cg acg trm atrm show ?thesis by blast
qed

theorem initial_unitary_is_identity_witness:
  "shape sample_theta = [1, 2, 2, 1]
   \<and> (\<exists>U0 call. disentangle_TRM_call (one_step_env False False) sample_theta 2 None [] = Inr call
         \<and> object_args (initial_iterate call) = [PyArray U0, PyArray sample_theta, PyInt 2]
         \<and> shape U0 = [2, 2, 2, 2] \<and> length (entries U0) = 16
         \<and> at4 U0 0 1 0 1 = 1 \<and> at4 U0 0 1 1 0 = 0 \<and> at4 U0 1 1 1 1 = 1)"
proof -
  have s: "shape sample_theta = [1, 2, 2, 1]" by (simp add: sample_theta_def)
  from initial_unitary_is_identity [OF s, of "one_step_env False False" 2 None "[]"]
  obtain U0 call where
    sh: "shape U0 = [2, 2, 2, 2]" and len: "length (entries U0) = 2 * 2 * (2 * 2)"
    and ident: "\<forall>a<2. \<forall>b<2. \<forall>c<2. \<forall>d<2. at4 U0 a b c d = (if a = c \<and> b = d then 1 else 0)"
    and call: "disentangle_TRM_call (one_step_env False False) sample_theta 2 None [] = Inr call"
    and args: "object_args (initial_iterate call) = [PyArray U0, PyArray sample_theta, PyInt 2]"
    by blast
  have "at4 U0 0 1 0 1 = 1" "at4 U0 0 1 1 0 = 0" "at4 U0 1 1 1 1 = 1"
    using ident by simp_all
  with s sh len call args show ?thesis by auto
qed

text \<open>
  C6: in \<^verbatim>\<open>disentangle_approx_TRM\<close>, when \<open>chi_max\<close> is unset (omitted or passed
  as \<open>None\<close>) it is set to \<open>chi\<close> before any iterate is constructed: the initial
  iterate and every iterate the closure builds are constructed with \<open>chi_max = chi\<close>.
\<close>

theorem chi_max_defaults_to_chi:
  assumes "shape theta = [l, D1, D2, r]" and "keyword ''chi_max'' PyNone kw = PyNone"
  shows "\<exists>call. disentangle_approx_TRM_call env theta chi dd kw = Inr call
    \<and> object_kwarg (initial_iterate call) ''chi_max'' = Some (PyInt chi)
    \<and> (\<forall>U old_iterate.
          object_kwarg (construct_iterate call U old_iterate) ''chi_max'' = Some (PyInt chi))"
  using approx_TRM_call_built [OF assms(1), of env chi dd kw] assms(2)
  by (auto simp: object_kwarg_def TruncErrorIterateApproxTRM_def)

theorem chi_max_defaults_to_chi_witness:
  "shape sample_theta = [1, 2, 2, 1] \<and> keyword ''chi_max'' PyNone [] = PyNone
   \<and> keyword ''chi_max'' PyNone [(''chi_max'', PyNone)] = PyNone
   \<and> (\<exists>call. disentangle_approx_TRM_call (one_step_env False False) sample_theta 3 None []
                 = Inr call
         \<and> object_kwarg (initial_iterate call) ''chi_max'' = Some (PyInt 3)
         \<and> object_kwarg (construct_iterate call (PyArray identity_2_2) (initial_iterate call))
              ''chi_max'' = Some (PyInt 3))"
proof -
  have s: "shape sample_theta = [1, 2, 2, 1]" by (simp add: sample_theta_def)
  have k: "keyword ''chi_max'' PyNone [] = PyNone" by (simp add: keyword_def)
  have k': "keyword ''chi_max'' PyNone [(''chi_max'', PyNone)] = PyNone" by (simp add: keyword_def)
  from chi_max_defaults_to_chi [OF s k, of "one_step_env False False" 3 None]
  show ?thesis using s k k' by blast
qed

text \<open>
  C10: \<^verbatim>\<open>disentangle_approx_TRM\<close> has no \<open>renyi_alpha\<close> parameter. A
  \<open>renyi_alpha\<close> keyword of the call is collected with the other unnamed keywords and
  reaches the constructor of the trust-region optimizer as it was passed; no iterate is
  constructed with it, and the initial iterate and the closure are the ones the call
  without that keyword builds.
\<close>

theorem renyi_alpha_goes_to_the_optimizer:
  assumes "shape theta = [l, D1, D2, r]" and "map_of kw ''renyi_alpha'' = Some v"
  shows "\<exists>call. disentangle_approx_TRM_call env theta chi dd kw = Inr call
    \<and> map_of (optimizer_kwargs call) ''renyi_alpha'' = Some v
    \<and> filter (\<lambda>(k, x). k = ''renyi_alpha'') (optimizer_kwargs call)
        = filter (\<lambda>(k, x). k = ''renyi_alpha'') kw
    \<and> object_kwarg (initial_iterate call) ''renyi_alpha'' = None
    \<and> (\<forall>U old_iterate.
          object_kwarg (construct_iterate call U old_iterate) ''renyi_alpha'' = None)
    \<and> (\<exists>call'. disentangle_approx_TRM_call env theta chi dd (collect [''renyi_alpha''] kw)
                   = Inr call'
          \<and> initial_iterate call' = initial_iterate call
          \<and> construct_iterate call' = construct_iterate call)"
proof -
  have f: "filter (\<lambda>(k, x). k = ''renyi_alpha'')
             (collect [''chi_max'', ''N_iters_svd'', ''eps_svd'', ''N_iters_svd_initial''] kw)
           = filter (\<lambda>(k, x). k = ''renyi_alpha'') kw"
    unfolding collect_def filter_filter by (rule filter_cong) auto
  from approx_TRM_call_built [OF assms(1), of env chi dd kw]
    approx_TRM_call_built [OF assms(1), of env chi dd "collect [''renyi_alpha''] kw"]
  show ?thesis
    using assms(2) f
    by (auto simp: map_of_collect keyword_collect object_kwarg_def TruncErrorIterateApproxTRM_def)
qed

theorem renyi_alpha_goes_to_the_optimizer_witness:
  "shape sample_theta = [1, 2, 2, 1]
   \<and> map_of [(''renyi_alpha'', PyFloat 0.5), (''max_iter'', PyInt 7)] ''renyi_alpha''
       = Some (PyFloat 0.5)
   \<and> (\<exists>call. disentangle_approx_TRM_call (one_step_env False False) sample_theta 2 None
                 [(''renyi_alpha'', PyFloat 0.5), (''max_iter'', PyInt 7)] = Inr call
         \<and> map_of (optimizer_kwargs call) ''renyi_alpha'' = Some (PyFloat 0.5)
         \<and> object_kwarg (initial_iterate call) ''renyi_alpha'' = None
         \<and> object_kwarg (construct_iterate call (PyArray identity_2_2) PyNone) ''renyi_alpha''
              = None)"
proof -
  have s: "shape sample_theta = [1, 2, 2, 1]" by (simp add: sample_theta_def)
  have m: "map_of [(''renyi_alpha'', PyFloat 0.5), (''max_iter'', PyInt 7)] ''renyi_alpha''
       = Some (PyFloat 0.5)" by simp
  from renyi_alpha_goes_to_the_optimizer [OF s m, of "one_step_env False False" 2 None]
  show ?thesis using s m by blast
qed

lemma approx_CG_concrete:
  "fst (disentangle_approx_CG (one_step_env False False) sample_theta 2 None []) =
     Inr (TruncErrorIterateCG [PyArray identity_2_2, PyArray sample_theta, PyInt 2]
            [(''chi_max'', PyNone), (''N_iters_svd'', PyInt 5), (''eps_svd'', PyFloat 0)])"
  by (simp add: disentangle_approx_CG_def disentangle_approx_CG_call_def sample_theta_def
      U0_concrete one_step_env_def returning_def object_args_def TruncErrorIterateCG_def
      ComplexStiefelManifold_def keyword_def collect_def Let_def)

lemma approx_TRM_concrete:
  "fst (disentangle_approx_TRM (one_step_env False False) sample_theta 2 None []) =
     Inr (TruncErrorIterateApproxTRM [PyArray identity_2_2, PyArray sample_theta, PyInt 2]
            [(''chi_max'', PyInt 2), (''N_iters_svd'', PyInt 2), (''eps_svd'', PyFloat 0),
             (''old_iterate'',
              TruncErrorIterateApproxTRM [PyArray identity_2_2, PyArray sample_theta, PyInt 2]
                [(''chi_max'', PyInt 2), (''N_iters_svd'', PyInt 50), (''eps_svd'', PyFloat 0),
                 (''old_iterate'', PyNone)])])"
  by (simp add: disentangle_approx_TRM_def disentangle_approx_TRM_call_def sample_theta_def
      U0_concrete one_step_env_def returning_def object_args_def TruncErrorIterateApproxTRM_def
      ComplexStiefelManifold_def keyword_def collect_def Let_def)

lemma TRM_concrete:
  "fst (disentangle_TRM (one_step_env False False) sample_theta 2 None []) =
     Inr (TruncErrorIterateTRM [PyArray identity_2_2, PyArray sample_theta, PyInt 2] [])"
  by (simp add: disentangle_TRM_def disentangle_TRM_call_def sample_theta_def U0_concrete
      one_step_env_def returning_def object_args_def TruncErrorIterateTRM_def
      ComplexStiefelManifold_def)

text \<open>
  C2: the closure of an approximate driver is to pass the previous iterate on to the
  iterate it constructs. With an engine that takes one step from the initial iterate,
  the iterate \<^verbatim>\<open>disentangle_approx_CG\<close> ends with was constructed without any
  \<open>old_iterate\<close>, although the engine handed the initial iterate to the closure, while
  the iterate \<^verbatim>\<open>disentangle_approx_TRM\<close> ends with carries its predecessor.
\<close>

theorem approx_CG_closure_drops_previous_iterate:
  "fst (disentangle_approx_CG (one_step_env False False) sample_theta 2 None []) =
     Inr (TruncErrorIterateCG [PyArray identity_2_2, PyArray sample_theta, PyInt 2]
            [(''chi_max'', PyNone), (''N_iters_svd'', PyInt 5), (''eps_svd'', PyFloat 0)])
   \<and> object_kwarg
        (TruncErrorIterateCG [PyArray identity_2_2, PyArray sample_theta, PyInt 2]
            [(''chi_max'', PyNone), (''N_iters_svd'', PyInt 5), (''eps_svd'', PyFloat 0)])
        ''old_iterate'' = None
   \<and> (\<exists>previous. previous \<noteq> PyNone
         \<and> fst (disentangle_approx_TRM (one_step_env False False) sample_theta 2 None []) =
             Inr (TruncErrorIterateApproxTRM
                    [PyArray identity_2_2, PyArray sample_theta, PyInt 2]
                    [(''chi_max'', PyInt 2), (''N_iters_svd'', PyInt 2),
                     (''eps_svd'', PyFloat 0), (''old_iterate'', previous)]))"
  using approx_CG_concrete approx_TRM_concrete
  by (simp add: object_kwarg_def TruncErrorIterateCG_def TruncErrorIterateApproxTRM_def)

section \<open>Recording into the debug dictionary\<close>

lemma run_statements_append:
  "run_statements (ss @ ts) d =
     (case run_statements ss d of (None, d') \<Rightarrow> run_statements ts d' | (Some e, d') \<Rightarrow> (Some e, d'))"
  by (induction ss arbitrary: d) (auto split: sum.splits)

lemma run_leaves:
  "\<forall>s \<in> set ss. leaves k s \<Longrightarrow> lookup (snd (run_statements ss d)) k = lookup d k"
proof (induction ss arbitrary: d)
  case Nil
  then show ?case by simp
next
  case (Cons s ss)
  show ?case
  proof (cases "s d")
    case (Inl e)
    then show ?thesis by simp
  next
    case (Inr d')
    have "lookup d' k = lookup d k" using Cons.prems Inr by (simp add: leaves_def)
    moreover have "lookup (snd (run_statements ss d')) k = lookup d' k"
      using Cons by simp
    ultimately show ?thesis using Inr by simp
  qed
qed

lemma run_written:
  assumes "run_statements (pre @ s # post) d = (None, d')"
    and "\<forall>t \<in> set pre. leaves k t" and "\<forall>t \<in> set post. leaves k t"
  shows "\<exists>d1 d2. s d1 = Inr d2 \<and> lookup d1 k = lookup d k \<and> lookup d' k = lookup d2 k"
proof -
  obtain r1 d1 where p: "run_statements pre d = (r1, d1)" by (cases "run_statements pre d")
  with assms(1) have r1: "r1 = None" and rest: "run_statements (s # post) d1 = (None, d')"
    by (auto simp: run_statements_append split: option.splits)
  from rest obtain d2 where s: "s d1 = Inr d2" and post: "run_statements post d2 = (None, d')"
    by (auto split: sum.splits)
  have "lookup d1 k = lookup d k" using run_leaves [OF assms(2), of d] p by simp
  moreover have "lookup d' k = lookup d2 k" using run_leaves [OF assms(3), of d2] post by simp
  ultimately show ?thesis using s by blast
qed

lemma append_leaves: "k \<noteq> key \<Longrightarrow> leaves k (append_to_dict_list key v)"
  by (auto simp: leaves_def append_to_dict_list_def lookup_def
      split: option.splits pyval.splits)

lemma setitem_leaves: "k \<noteq> key \<Longrightarrow> leaves k (setitem key rhs)"
  by (auto simp: leaves_def setitem_def lookup_def split: option.splits sum.splits)

lemma append_written:
  "append_to_dict_list key v d = Inr d'
     \<Longrightarrow> lookup d' key = Some (PyList (items_at d key @ [v]))"
  by (auto simp: append_to_dict_list_def lookup_def items_at_def
      split: option.splits pyval.splits)

lemma setitem_written:
  "setitem key rhs d = Inr d' \<Longrightarrow> \<exists>x. rhs = Inr x \<and> lookup d' key = Some x"
  by (auto simp: setitem_def lookup_def split: option.splits sum.splits)

lemma items_at_cong: "lookup d1 k = lookup d k \<Longrightarrow> items_at d1 k = items_at d k"
  by (simp add: items_at_def)

lemma appended_in_run:
  assumes "run_statements (pre @ append_to_dict_list k v # post) d = (None, d')"
    and "\<forall>t \<in> set pre. leaves k t" and "\<forall>t \<in> set post. leaves k t"
  shows "lookup d' k = Some (PyList (items_at d k @ [v]))"
proof -
  from run_written [OF assms] obtain d1 d2 where
    "append_to_dict_list k v d1 = Inr d2" "lookup d1 k = lookup d k" "lookup d' k = lookup d2 k"
    by blast
  then show ?thesis using append_written [of k v d1 d2] items_at_cong [of d1 k d] by simp
qed

lemma set_in_run:
  assumes "run_statements (pre @ setitem k rhs # post) d = (None, d')"
    and "\<forall>t \<in> set pre. leaves k t" and "\<forall>t \<in> set post. leaves k t"
  shows "\<exists>x. rhs = Inr x \<and> lookup d' k = Some x"
proof -
  from run_written [OF assms] obtain d1 d2 where
    "setitem k rhs d1 = Inr d2" "lookup d' k = lookup d2 k"
    by blast
  then show ?thesis using setitem_written [of k rhs d1 d2] by auto
qed

lemma snd_returning: "snd (returning v r) = snd r"
  by (simp add: returning_def split: prod.splits option.splits)

lemma append_iff:
  "(append_to_dict_list k v d = Inr d') =
     (\<exists>m. d = Some m \<and> appendable d k \<and> d' = Some (m(k \<mapsto> PyList (items_at d k @ [v]))))"
  by (auto simp: append_to_dict_list_def appendable_def items_at_def lookup_def
      split: option.splits pyval.splits)

lemma setitem_iff:
  "(setitem k rhs d = Inr d') = (\<exists>m x. rhs = Inr x \<and> d = Some m \<and> d' = Some (m(k \<mapsto> x)))"
  by (auto simp: setitem_def split: option.splits sum.splits)

lemma getitem_iff:
  "(getitem di i = Inr x) = (\<exists>xs. di = Some xs \<and> i < length xs \<and> x = xs ! i)"
  by (auto simp: getitem_def split: option.splits)

lemma appendable_upd:
  "k \<noteq> k' \<Longrightarrow> appendable (Some (m(k' \<mapsto> v))) k = appendable (Some m) k"
  by (simp add: appendable_def)

lemma run_cons_returns:
  "(fst (run_statements (s # ss) d) = None) =
     (\<exists>d1. s d = Inr d1 \<and> fst (run_statements ss d1) = None)"
  by (auto split: sum.splits)

lemma appends_return:
  "(fst (run_statements (append_to_dict_list k v # ss) d) = None) =
     (appendable d k \<and>
      (\<exists>m. d = Some m \<and>
         fst (run_statements ss (Some (m(k \<mapsto> PyList (items_at d k @ [v]))))) = None))"
  by (auto simp: run_cons_returns append_iff simp del: run_statements.simps(2))

lemma setitems_return:
  "(fst (run_statements (setitem k (getitem di i) # ss) d) = None) =
     (\<exists>m xs. d = Some m \<and> di = Some xs \<and> i < length xs \<and>
         fst (run_statements ss (Some (m(k \<mapsto> xs ! i)))) = None)"
  by (auto simp: run_cons_returns setitem_iff getitem_iff simp del: run_statements.simps(2))

lemma cg_block_returns:
  "(fst (run_statements
           ((if p
             then [append_to_dict_list ''N_iters_disentangler'' n,
                   append_to_dict_list ''disentangler_num_restarts_not_descent'' a,
                   append_to_dict_list ''disentangler_num_restarts_powell'' b]
             else []) @
            (if q
             then [setitem ''disentangler_iterates'' (getitem di 0),
                   setitem ''disentangler_costs'' (getitem di 1),
                   setitem ''disentangler_step_sizes'' (getitem di 2)]
             else []))
           d) = None)
   = can_record p q cg_run_keys cg_iteration_keys di d"
proof (cases d)
  case None
  then show ?thesis
    by (cases p; cases q)
       (simp_all add: appends_return setitems_return can_record_def appendable_def
          cg_run_keys_def cg_iteration_keys_def del: run_statements.simps(2))
next
  case (Some m)
  show ?thesis
  proof (cases di)
    case None
    then show ?thesis using Some
      by (cases p; cases q)
         (simp_all add: appends_return setitems_return can_record_def appendable_upd
            cg_run_keys_def cg_iteration_keys_def del: run_statements.simps(2))
  next
    case (Some xs)
    have "(0 < length xs \<and> Suc 0 < length xs \<and> 2 < length xs) = (Suc (Suc (Suc 0)) \<le> length xs)" by auto
    then show ?thesis using \<open>d = Some m\<close> Some
      by (cases p; cases q)
         (simp_all add: appends_return setitems_return can_record_def appendable_upd
            cg_run_keys_def cg_iteration_keys_def del: run_statements.simps(2))
  qed
qed

lemma returning_isl: "(\<not> isl (fst (returning v r))) = (fst r = None)"
  by (auto simp: returning_def split: prod.splits option.splits)

lemma returned_outcome: "fst r = None \<Longrightarrow> r = (None, snd r)"
  by (cases r) simp

lemma cg_block_recorded:
  "recorded p q cg_run_keys cg_iteration_keys [n, a, b] di d
     (returning v
        (run_statements
           ((if p
             then [append_to_dict_list ''N_iters_disentangler'' n,
                   append_to_dict_list ''disentangler_num_restarts_not_descent'' a,
                   append_to_dict_list ''disentangler_num_restarts_powell'' b]
             else []) @
            (if q
             then [setitem ''disentangler_iterates'' (getitem di 0),
                   setitem ''disentangler_costs'' (getitem di 1),
                   setitem ''disentangler_step_sizes'' (getitem di 2)]
             else []))
           d))"
  (is "recorded p q _ _ _ _ _ (returning v (run_statements ?L d))")
proof -
  let ?A1 = "append_to_dict_list ''N_iters_disentangler'' n"
  let ?A2 = "append_to_dict_list ''disentangler_num_restarts_not_descent'' a"
  let ?A3 = "append_to_dict_list ''disentangler_num_restarts_powell'' b"
  let ?S1 = "setitem ''disentangler_iterates'' (getitem di 0)"
  let ?S2 = "setitem ''disentangler_costs'' (getitem di 1)"
  let ?S3 = "setitem ''disentangler_step_sizes'' (getitem di 2)"
  let ?Q = "if q then [?S1, ?S2, ?S3] else []"
  let ?r = "run_statements ?L d"
  have frame: "lookup (snd ?r) k = lookup d k"
    if "k \<notin> set cg_run_keys \<union> set cg_iteration_keys" for k
    using that
    by (intro run_leaves)
       (auto simp: cg_run_keys_def cg_iteration_keys_def intro!: append_leaves setitem_leaves)
  have run_off: "lookup (snd ?r) k = lookup d k" if "\<not> p" "k \<in> set cg_run_keys" for k
    using that
    by (intro run_leaves) (auto simp: cg_run_keys_def intro!: setitem_leaves)
  have it_off: "lookup (snd ?r) k = lookup d k" if "\<not> q" "k \<in> set cg_iteration_keys" for k
    using that
    by (intro run_leaves) (auto simp: cg_iteration_keys_def intro!: append_leaves)
  have both_off: "snd ?r = d" if "\<not> p" "\<not> q"
    using that by simp
  have run_on: "lookup (snd ?r) k = Some (PyList (items_at d k @ [c]))"
    if "p" "?r = (None, snd ?r)" "(k, c) \<in> set (zip cg_run_keys [n, a, b])" for k c
  proof -
    have L1: "?L = [] @ ?A1 # ([?A2, ?A3] @ ?Q)" and L2: "?L = [?A1] @ ?A2 # ([?A3] @ ?Q)"
      and L3: "?L = [?A1, ?A2] @ ?A3 # ?Q"
      using \<open>p\<close> by simp_all
    have 1: "lookup (snd ?r) ''N_iters_disentangler'' =
               Some (PyList (items_at d ''N_iters_disentangler'' @ [n]))"
      by (rule appended_in_run [of "[]" _ _ "[?A2, ?A3] @ ?Q" d])
         (use that(2) L1 in \<open>auto intro!: append_leaves setitem_leaves\<close>)
    have 2: "lookup (snd ?r) ''disentangler_num_restarts_not_descent'' =
               Some (PyList (items_at d ''disentangler_num_restarts_not_descent'' @ [a]))"
      by (rule appended_in_run [of "[?A1]" _ _ "[?A3] @ ?Q" d])
         (use that(2) L2 in \<open>auto intro!: append_leaves setitem_leaves\<close>)
    have 3: "lookup (snd ?r) ''disentangler_num_restarts_powell'' =
               Some (PyList (items_at d ''disentangler_num_restarts_powell'' @ [b]))"
      by (rule appended_in_run [of "[?A1, ?A2]" _ _ "?Q" d])
         (use that(2) L3 in \<open>auto intro!: append_leaves setitem_leaves\<close>)
    from that(3) consider "k = ''N_iters_disentangler'' \<and> c = n"
      | "k = ''disentangler_num_restarts_not_descent'' \<and> c = a"
      | "k = ''disentangler_num_restarts_powell'' \<and> c = b"
      by (auto simp: cg_run_keys_def)
    then show ?thesis using 1 2 3 by cases blast+
  qed
  have it_on: "\<exists>x. getitem di i = Inr x \<and> lookup (snd ?r) k = Some x"
    if "q" "?r = (None, snd ?r)" "(i, k) \<in> set (enumerate 0 cg_iteration_keys)" for i k
  proof -
    let ?P = "if p then [?A1, ?A2, ?A3] else []"
    have L1: "?L = ?P @ ?S1 # [?S2, ?S3]" and L2: "?L = (?P @ [?S1]) @ ?S2 # [?S3]"
      and L3: "?L = (?P @ [?S1, ?S2]) @ ?S3 # []"
      using \<open>q\<close> by simp_all
    have 1: "\<exists>x. getitem di 0 = Inr x \<and> lookup (snd ?r) ''disentangler_iterates'' = Some x"
      by (rule set_in_run [of "?P" _ _ "[?S2, ?S3]" d])
         (use that(2) L1 in \<open>auto intro!: append_leaves setitem_leaves\<close>)
    have 2: "\<exists>x. getitem di 1 = Inr x \<and> lookup (snd ?r) ''disentangler_costs'' = Some x"
      by (rule set_in_run [of "?P @ [?S1]" _ _ "[?S3]" d])
         (use that(2) L2 in \<open>auto intro!: append_leaves setitem_leaves\<close>)
    have 3: "\<exists>x. getitem di 2 = Inr x \<and> lookup (snd ?r) ''disentangler_step_sizes'' = Some x"
      by (rule set_in_run [of "?P @ [?S1, ?S2]" _ _ "[]" d])
         (use that(2) L3 in \<open>auto intro!: append_leaves setitem_leaves\<close>)
    from that(3) consider "i = 0 \<and> k = ''disentangler_iterates''"
      | "i = 1 \<and> k = ''disentangler_costs''"
      | "i = 2 \<and> k = ''disentangler_step_sizes''"
      by (auto simp: cg_iteration_keys_def)
    then show ?thesis using 1 2 3 by cases blast+
  qed
  show ?thesis
    unfolding recorded_def snd_returning
  proof (intro conjI allI impI ballI, goal_cases)
    case (1 k)
    then show ?case by (rule frame)
  next
    case (2 k)
    then show ?case by (rule run_off)
  next
    case (3 k)
    then show ?case by (rule it_off)
  next
    case 4
    then show ?case using both_off by blast
  next
    case 5
    show ?case by (simp only: returning_isl cg_block_returns)
  next
    case (6 x)
    obtain k c where x: "x = (k, c)" by (cases x)
    from 6 have "can_record p q cg_run_keys cg_iteration_keys di d" by blast
    then have "fst ?r = None" by (simp only: cg_block_returns)
    then have "?r = (None, snd ?r)" by (rule returned_outcome)
    with 6 x have "lookup (snd ?r) k = Some (PyList (items_at d k @ [c]))"
      by (intro run_on) blast+
    with x show ?case by (simp only: prod.case)
  next
    case (7 x)
    obtain i k where x: "x = (i, k)" by (cases x)
    from 7 have "can_record p q cg_run_keys cg_iteration_keys di d" by blast
    then have "fst ?r = None" by (simp only: cg_block_returns)
    then have "?r = (None, snd ?r)" by (rule returned_outcome)
    with 7 x have "\<exists>y. getitem di i = Inr y \<and> lookup (snd ?r) k = Some y"
      by (intro it_on) blast+
    with x show ?case by (simp only: prod.case)
  qed
qed

lemma trm_block_returns:
  "(fst (run_statements
           ((if p then [append_to_dict_list ''N_iters_disentangler'' n] else []) @
            (if q
             then [setitem ''disentangler_iterates'' (getitem di 0),
                   setitem ''disentangler_costs'' (getitem di 1),
                   setitem ''disentangler_deltas'' (getitem di 2),
                   setitem ''disentangler_tCG_iters'' (getitem di 3)]
             else []))
           d) = None)
   = can_record p q trm_run_keys trm_iteration_keys di d"
proof (cases d)
  case None
  then show ?thesis
    by (cases p; cases q)
       (simp_all add: appends_return setitems_return can_record_def appendable_def
          trm_run_keys_def trm_iteration_keys_def del: run_statements.simps(2))
next
  case (Some m)
  show ?thesis
  proof (cases di)
    case None
    then show ?thesis using Some
      by (cases p; cases q)
         (simp_all add: appends_return setitems_return can_record_def appendable_upd
            trm_run_keys_def trm_iteration_keys_def del: run_statements.simps(2))
  next
    case (Some xs)
    have "(0 < length xs \<and> Suc 0 < length xs \<and> 2 < length xs \<and> 3 < length xs)
            = (Suc (Suc (Suc (Suc 0))) \<le> length xs)" by auto
    then show ?thesis using \<open>d = Some m\<close> Some
      by (cases p; cases q)
         (simp_all add: appends_return setitems_return can_record_def appendable_upd
            trm_run_keys_def trm_iteration_keys_def del: run_statements.simps(2))
  qed
qed

lemma trm_block_recorded:
  "recorded p q trm_run_keys trm_iteration_keys [n] di d
     (returning v
        (run_statements
           ((if p then [append_to_dict_list ''N_iters_disentangler'' n] else []) @
            (if q
             then [setitem ''disentangler_iterates'' (getitem di 0),
                   setitem ''disentangler_costs'' (getitem di 1),
                   setitem ''disentangler_deltas'' (getitem di 2),
                   setitem ''disentangler_tCG_iters'' (getitem di 3)]
             else []))
           d))"
  (is "recorded p q _ _ _ _ _ (returning v (run_statements ?L d))")
proof -
  let ?A1 = "append_to_dict_list ''N_iters_disentangler'' n"
  let ?S1 = "setitem ''disentangler_iterates'' (getitem di 0)"
  let ?S2 = "setitem ''disentangler_costs'' (getitem di 1)"
  let ?S3 = "setitem ''disentangler_deltas'' (getitem di 2)"
  let ?S4 = "setitem ''disentangler_tCG_iters'' (getitem di 3)"
  let ?Q = "if q then [?S1, ?S2, ?S3, ?S4] else []"
  let ?r = "run_statements ?L d"
  have frame: "lookup (snd ?r) k = lookup d k"
    if "k \<notin> set trm_run_keys \<union> set trm_iteration_keys" for k
    using that
    by (intro run_leaves)
       (auto simp: trm_run_keys_def trm_iteration_keys_def intro!: append_leaves setitem_leaves)
  have run_off: "lookup (snd ?r) k = lookup d k" if "\<not> p" "k \<in> set trm_run_keys" for k
    using that
    by (intro run_leaves) (auto simp: trm_run_keys_def intro!: setitem_leaves)
  have it_off: "lookup (snd ?r) k = lookup d k" if "\<not> q" "k \<in> set trm_iteration_keys" for k
    using that
    by (intro run_leaves) (auto simp: trm_iteration_keys_def intro!: append_leaves)
  have both_off: "snd ?r = d" if "\<not> p" "\<not> q"
    using that by simp
  have run_on: "lookup (snd ?r) k = Some (PyList (items_at d k @ [c]))"
    if "p" "?r = (None, snd ?r)" "(k, c) \<in> set (zip trm_run_keys [n])" for k c
  proof -
    have L1: "?L = [] @ ?A1 # ?Q"
      using \<open>p\<close> by simp
    have 1: "lookup (snd ?r) ''N_iters_disentangler'' =
               Some (PyList (items_at d ''N_iters_disentangler'' @ [n]))"
      by (rule appended_in_run [of "[]" _ _ "?Q" d])
         (use that(2) L1 in \<open>auto intro!: append_leaves setitem_leaves\<close>)
    from that(3) have "k = ''N_iters_disentangler'' \<and> c = n"
      by (auto simp: trm_run_keys_def)
    then show ?thesis using 1 by blast
  qed
  have it_on: "\<exists>x. getitem di i = Inr x \<and> lookup (snd ?r) k = Some x"
    if "q" "?r = (None, snd ?r)" "(i, k) \<in> set (enumerate 0 trm_iteration_keys)" for i k
  proof -
    let ?P = "if p then [?A1] else []"
    have L1: "?L = ?P @ ?S1 # [?S2, ?S3, ?S4]" and L2: "?L = (?P @ [?S1]) @ ?S2 # [?S3, ?S4]"
      and L3: "?L = (?P @ [?S1, ?S2]) @ ?S3 # [?S4]"
      and L4: "?L = (?P @ [?S1, ?S2, ?S3]) @ ?S4 # []"
      using \<open>q\<close> by simp_all
    have 1: "\<exists>x. getitem di 0 = Inr x \<and> lookup (snd ?r) ''disentangler_iterates'' = Some x"
      by (rule set_in_run [of "?P" _ _ "[?S2, ?S3, ?S4]" d])
         (use that(2) L1 in \<open>auto intro!: append_leaves setitem_leaves\<close>)
    have 2: "\<exists>x. getitem di 1 = Inr x \<and> lookup (snd ?r) ''disentangler_costs'' = Some x"
      by (rule set_in_run [of "?P @ [?S1]" _ _ "[?S3, ?S4]" d])
         (use that(2) L2 in \<open>auto intro!: append_leaves setitem_leaves\<close>)
    have 3: "\<exists>x. getitem di 2 = Inr x \<and> lookup (snd ?r) ''disentangler_deltas'' = Some x"
      by (rule set_in_run [of "?P @ [?S1, ?S2]" _ _ "[?S4]" d])
         (use that(2) L3 in \<open>auto intro!: append_leaves setitem_leaves\<close>)
    have 4: "\<exists>x. getitem di 3 = Inr x \<and> lookup (snd ?r) ''disentangler_tCG_iters'' = Some x"
      by (rule set_in_run [of "?P @ [?S1, ?S2, ?S3]" _ _ "[]" d])
         (use that(2) L4 in \<open>auto intro!: append_leaves setitem_leaves\<close>)
    from that(3) consider "i = 0 \<and> k = ''disentangler_iterates''"
      | "i = 1 \<and> k = ''disentangler_costs''"
      | "i = 2 \<and> k = ''disentangler_deltas''"
      | "i = 3 \<and> k = ''disentangler_tCG_iters''"
      by (auto simp: trm_iteration_keys_def)
    then show ?thesis using 1 2 3 4 by cases blast+
  qed
  show ?thesis
    unfolding recorded_def snd_returning
  proof (intro conjI allI impI ballI, goal_cases)
    case (1 k)
    then show ?case by (rule frame)
  next
    case (2 k)
    then show ?case by (rule run_off)
  next
    case (3 k)
    then show ?case by (rule it_off)
  next
    case 4
    then show ?case using both_off by blast
  next
    case 5
    show ?case by (simp only: returning_isl trm_block_returns)
  next
    case (6 x)
    obtain k c where x: "x = (k, c)" by (cases x)
    from 6 have "can_record p q trm_run_keys trm_iteration_keys di d" by blast
    then have "fst ?r = None" by (simp only: trm_block_returns)
    then have "?r = (None, snd ?r)" by (rule returned_outcome)
    with 6 x have "lookup (snd ?r) k = Some (PyList (items_at d k @ [c]))"
      by (intro run_on) blast+
    with x show ?case by (simp only: prod.case)
  next
    case (7 x)
    obtain i k where x: "x = (i, k)" by (cases x)
    from 7 have "can_record p q trm_run_keys trm_iteration_keys di d" by blast
    then have "fst ?r = None" by (simp only: trm_block_returns)
    then have "?r = (None, snd ?r)" by (rule returned_outcome)
    with 7 x have "\<exists>y. getitem di i = Inr y \<and> lookup (snd ?r) k = Some y"
      by (intro it_on) blast+
    with x show ?case by (simp only: prod.case)
  qed
qed

lemma CG_call_flag:
  "disentangle_CG_call env theta chi dd kw = Inr call \<Longrightarrow>
   log_debug_info call = check_debug_level env dd
     LOG_PER_ITERATION_DEBUG_INFO_DISENTANGLER_TRIPARTITE_DECOMPOSITION"
  by (auto simp: disentangle_CG_call_def Let_def split: list.splits sum.splits)

lemma approx_CG_call_flag:
  "disentangle_approx_CG_call env theta chi dd kw = Inr call \<Longrightarrow>
   log_debug_info call = check_debug_level env dd
     LOG_PER_ITERATION_DEBUG_INFO_DISENTANGLER_TRIPARTITE_DECOMPOSITION"
  by (auto simp: disentangle_approx_CG_call_def Let_def split: list.splits sum.splits)

lemma TRM_call_flag:
  "disentangle_TRM_call env theta chi dd kw = Inr call \<Longrightarrow>
   log_debug_info call = check_debug_level env dd
     LOG_PER_ITERATION_DEBUG_INFO_DISENTANGLER_TRIPARTITE_DECOMPOSITION"
  by (auto simp: disentangle_TRM_call_def Let_def split: list.splits sum.splits)

lemma approx_TRM_call_flag:
  "disentangle_approx_TRM_call env theta chi dd kw = Inr call \<Longrightarrow>
   log_debug_info call = check_debug_level env dd
     LOG_PER_ITERATION_DEBUG_INFO_DISENTANGLER_TRIPARTITE_DECOMPOSITION"
  by (auto simp: disentangle_approx_TRM_call_def Let_def split: list.splits sum.splits)

lemma CG_recorded:
  assumes "disentangle_CG_call env theta chi dd kw = Inr call"
    and "cg_optimize env call = Inr (v, n, a, b, di)"
  shows "recorded
     (check_debug_level env dd LOG_DISENTANGLER_TRIPARTITE_DECOMPOSITION_ITERATION_INFO)
     (check_debug_level env dd
        LOG_PER_ITERATION_DEBUG_INFO_DISENTANGLER_TRIPARTITE_DECOMPOSITION)
     cg_run_keys cg_iteration_keys [n, a, b] di dd (disentangle_CG env theta chi dd kw)"
  using cg_block_recorded assms CG_call_flag [OF assms(1)]
  by (simp add: disentangle_CG_def)

lemma approx_CG_recorded:
  assumes "disentangle_approx_CG_call env theta chi dd kw = Inr call"
    and "cg_optimize env call = Inr (v, n, a, b, di)"
  shows "recorded
     (check_debug_level env dd LOG_DISENTANGLER_TRIPARTITE_DECOMPOSITION_ITERATION_INFO)
     (check_debug_level env dd
        LOG_PER_ITERATION_DEBUG_INFO_DISENTANGLER_TRIPARTITE_DECOMPOSITION)
     cg_run_keys cg_iteration_keys [n, a, b] di dd (disentangle_approx_CG env theta chi dd kw)"
  using cg_block_recorded assms approx_CG_call_flag [OF assms(1)]
  by (simp add: disentangle_approx_CG_def)

lemma TRM_recorded:
  assumes "disentangle_TRM_call env theta chi dd kw = Inr call"
    and "trm_optimize env call = Inr (v, n, di)"
  shows "recorded
     (check_debug_level env dd LOG_DISENTANGLER_TRIPARTITE_DECOMPOSITION_ITERATION_INFO)
     (check_debug_level env dd
        LOG_PER_ITERATION_DEBUG_INFO_DISENTANGLER_TRIPARTITE_DECOMPOSITION)
     trm_run_keys trm_iteration_keys [n] di dd (disentangle_TRM env theta chi dd kw)"
  using trm_block_recorded assms TRM_call_flag [OF assms(1)]
  by (simp add: disentangle_TRM_def)

lemma approx_TRM_recorded:
  assumes "disentangle_approx_TRM_call env theta chi dd kw = Inr call"
    and "trm_optimize env call = Inr (v, n, di)"
  shows "recorded
     (check_debug_level env dd LOG_DISENTANGLER_TRIPARTITE_DECOMPOSITION_ITERATION_INFO)
     (check_debug_level env dd
        LOG_PER_ITERATION_DEBUG_INFO_DISENTANGLER_TRIPARTITE_DECOMPOSITION)
     trm_run_keys trm_iteration_keys [n] di dd (disentangle_approx_TRM env theta chi dd kw)"
  using trm_block_recorded assms approx_TRM_call_flag [OF assms(1)]
  by (simp add: disentangle_approx_TRM_def)

lemma untouched_without_engine_result:
  "(\<forall>call v n a b di. disentangle_CG_call env theta chi dd kw = Inr call
       \<longrightarrow> cg_optimize env call \<noteq> Inr (v, n, a, b, di))
     \<Longrightarrow> snd (disentangle_CG env theta chi dd kw) = dd"
  "(\<forall>call v n a b di. disentangle_approx_CG_call env theta chi dd kw = Inr call
       \<longrightarrow> cg_optimize env call \<noteq> Inr (v, n, a, b, di))
     \<Longrightarrow> snd (disentangle_approx_CG env theta chi dd kw) = dd"
  "(\<forall>call v n di. disentangle_TRM_call env theta chi dd kw = Inr call
       \<longrightarrow> trm_optimize env call \<noteq> Inr (v, n, di))
     \<Longrightarrow> snd (disentangle_TRM env theta chi dd kw) = dd"
  "(\<forall>call v n di. disentangle_approx_TRM_call env theta chi dd kw = Inr call
       \<longrightarrow> trm_optimize env call \<noteq> Inr (v, n, di))
     \<Longrightarrow> snd (disentangle_approx_TRM env theta chi dd kw) = dd"
  by (auto simp: disentangle_CG_def disentangle_approx_CG_def disentangle_TRM_def
      disentangle_approx_TRM_def split: sum.splits prod.splits)

lemma call_reads_only_the_level:
  assumes "check_debug_level env dd'
             LOG_PER_ITERATION_DEBUG_INFO_DISENTANGLER_TRIPARTITE_DECOMPOSITION
           = check_debug_level env dd
             LOG_PER_ITERATION_DEBUG_INFO_DISENTANGLER_TRIPARTITE_DECOMPOSITION"
  shows "disentangle_CG_call env theta chi dd' kw = disentangle_CG_call env theta chi dd kw"
    and "disentangle_approx_CG_call env theta chi dd' kw
         = disentangle_approx_CG_call env theta chi dd kw"
    and "disentangle_TRM_call env theta chi dd' kw = disentangle_TRM_call env theta chi dd kw"
    and "disentangle_approx_TRM_call env theta chi dd' kw
         = disentangle_approx_TRM_call env theta chi dd kw"
  unfolding disentangle_CG_call_def disentangle_approx_CG_call_def
    disentangle_TRM_call_def disentangle_approx_TRM_call_def assms
  by (rule refl)+

section \<open>When a driver returns, and what\<close>

lemma returning_Inr_iff: "(fst (returning v r) = Inr w) = (fst r = None \<and> w = v)"
  by (auto simp: returning_def split: prod.splits option.splits)

lemma CG_returns_iff:
  assumes "disentangle_CG_call env theta chi dd kw = Inr call"
    and "cg_optimize env call = Inr (v, n, a, b, di)"
  shows "(fst (disentangle_CG env theta chi dd kw) = Inr w) =
     (w = v \<and> can_record
        (check_debug_level env dd LOG_DISENTANGLER_TRIPARTITE_DECOMPOSITION_ITERATION_INFO)
        (check_debug_level env dd
           LOG_PER_ITERATION_DEBUG_INFO_DISENTANGLER_TRIPARTITE_DECOMPOSITION)
        cg_run_keys cg_iteration_keys di dd)"
  using assms CG_call_flag [OF assms(1)]
  by (auto simp: disentangle_CG_def returning_Inr_iff cg_block_returns)

lemma approx_CG_returns_iff:
  assumes "disentangle_approx_CG_call env theta chi dd kw = Inr call"
    and "cg_optimize env call = Inr (v, n, a, b, di)"
  shows "(fst (disentangle_approx_CG env theta chi dd kw) = Inr w) =
     (w = v \<and> can_record
        (check_debug_level env dd LOG_DISENTANGLER_TRIPARTITE_DECOMPOSITION_ITERATION_INFO)
        (check_debug_level env dd
           LOG_PER_ITERATION_DEBUG_INFO_DISENTANGLER_TRIPARTITE_DECOMPOSITION)
        cg_run_keys cg_iteration_keys di dd)"
  using assms approx_CG_call_flag [OF assms(1)]
  by (auto simp: disentangle_approx_CG_def returning_Inr_iff cg_block_returns)

lemma TRM_returns_iff:
  assumes "disentangle_TRM_call env theta chi dd kw = Inr call"
    and "trm_optimize env call = Inr (v, n, di)"
  shows "(fst (disentangle_TRM env theta chi dd kw) = Inr w) =
     (w = v \<and> can_record
        (check_debug_level env dd LOG_DISENTANGLER_TRIPARTITE_DECOMPOSITION_ITERATION_INFO)
        (check_debug_level env dd
           LOG_PER_ITERATION_DEBUG_INFO_DISENTANGLER_TRIPARTITE_DECOMPOSITION)
        trm_run_keys trm_iteration_keys di dd)"
  using assms TRM_call_flag [OF assms(1)]
  by (auto simp: disentangle_TRM_def returning_Inr_iff trm_block_returns)

lemma approx_TRM_returns_iff:
  assumes "disentangle_approx_TRM_call env theta chi dd kw = Inr call"
    and "trm_optimize env call = Inr (v, n, di)"
  shows "(fst (disentangle_approx_TRM env theta chi dd kw) = Inr w) =
     (w = v \<and> can_record
        (check_debug_level env dd LOG_DISENTANGLER_TRIPARTITE_DECOMPOSITION_ITERATION_INFO)
        (check_debug_level env dd
           LOG_PER_ITERATION_DEBUG_INFO_DISENTANGLER_TRIPARTITE_DECOMPOSITION)
        trm_run_keys trm_iteration_keys di dd)"
  using assms approx_TRM_call_flag [OF assms(1)]
  by (auto simp: disentangle_approx_TRM_def returning_Inr_iff trm_block_returns)





lemma call_is_built:
  assumes "shape theta = [l, D1, D2, r]"
  shows "\<exists>call. disentangle_CG_call env theta chi dd kw = Inr call"
    and "\<exists>call. disentangle_approx_CG_call env theta chi dd kw = Inr call"
    and "\<exists>call. disentangle_TRM_call env theta chi dd kw = Inr call"
    and "\<exists>call. disentangle_approx_TRM_call env theta chi dd kw = Inr call"
  using CG_call_built [OF assms, of env chi dd kw]
    approx_CG_call_built [OF assms, of env chi dd kw]
    TRM_call_built [OF assms, of env chi dd kw]
    approx_TRM_call_built [OF assms, of env chi dd kw]
  by blast+

lemma CG_same_value:
  assumes "disentangle_CG_call env theta chi dd kw = Inr call"
    and "cg_optimize env call = Inr (v, n, a, b, di)"
    and "check_debug_level env dd'
           LOG_PER_ITERATION_DEBUG_INFO_DISENTANGLER_TRIPARTITE_DECOMPOSITION
         = check_debug_level env dd
           LOG_PER_ITERATION_DEBUG_INFO_DISENTANGLER_TRIPARTITE_DECOMPOSITION"
    and "can_record
           (check_debug_level env dd' LOG_DISENTANGLER_TRIPARTITE_DECOMPOSITION_ITERATION_INFO)
           (check_debug_level env dd'
              LOG_PER_ITERATION_DEBUG_INFO_DISENTANGLER_TRIPARTITE_DECOMPOSITION)
           cg_run_keys cg_iteration_keys di dd'"
  shows "fst (disentangle_CG env theta chi dd' kw) = Inr v"
proof -
  have "disentangle_CG_call env theta chi dd' kw = Inr call"
    using call_reads_only_the_level(1) [OF assms(3)] assms(1) by simp
  from CG_returns_iff [OF this assms(2), of v] assms(4) show ?thesis by simp
qed

lemma approx_CG_same_value:
  assumes "disentangle_approx_CG_call env theta chi dd kw = Inr call"
    and "cg_optimize env call = Inr (v, n, a, b, di)"
    and "check_debug_level env dd'
           LOG_PER_ITERATION_DEBUG_INFO_DISENTANGLER_TRIPARTITE_DECOMPOSITION
         = check_debug_level env dd
           LOG_PER_ITERATION_DEBUG_INFO_DISENTANGLER_TRIPARTITE_DECOMPOSITION"
    and "can_record
           (check_debug_level env dd' LOG_DISENTANGLER_TRIPARTITE_DECOMPOSITION_ITERATION_INFO)
           (check_debug_level env dd'
              LOG_PER_ITERATION_DEBUG_INFO_DISENTANGLER_TRIPARTITE_DECOMPOSITION)
           cg_run_keys cg_iteration_keys di dd'"
  shows "fst (disentangle_approx_CG env theta chi dd' kw) = Inr v"
proof -
  have "disentangle_approx_CG_call env theta chi dd' kw = Inr call"
    using call_reads_only_the_level(2) [OF assms(3)] assms(1) by simp
  from approx_CG_returns_iff [OF this assms(2), of v] assms(4) show ?thesis by simp
qed

lemma TRM_same_value:
  assumes "disentangle_TRM_call env theta chi dd kw = Inr call"
    and "trm_optimize env call = Inr (v, n, di)"
    and "check_debug_level env dd'
           LOG_PER_ITERATION_DEBUG_INFO_DISENTANGLER_TRIPARTITE_DECOMPOSITION
         = check_debug_level env dd
           LOG_PER_ITERATION_DEBUG_INFO_DISENTANGLER_TRIPARTITE_DECOMPOSITION"
    and "can_record
           (check_debug_level env dd' LOG_DISENTANGLER_TRIPARTITE_DECOMPOSITION_ITERATION_INFO)
           (check_debug_level env dd'
              LOG_PER_ITERATION_DEBUG_INFO_DISENTANGLER_TRIPARTITE_DECOMPOSITION)
           trm_run_keys trm_iteration_keys di dd'"
  shows "fst (disentangle_TRM env theta chi dd' kw) = Inr v"
proof -
  have "disentangle_TRM_call env theta chi dd' kw = Inr call"
    using call_reads_only_the_level(3) [OF assms(3)] assms(1) by simp
  from TRM_returns_iff [OF this assms(2), of v] assms(4) show ?thesis by simp
qed

lemma approx_TRM_same_value:
  assumes "disentangle_approx_TRM_call env theta chi dd kw = Inr call"
    and "trm_optimize env call = Inr (v, n, di)"
    and "check_debug_level env dd'
           LOG_PER_ITERATION_DEBUG_INFO_DISENTANGLER_TRIPARTITE_DECOMPOSITION
         = check_debug_level env dd
           LOG_PER_ITERATION_DEBUG_INFO_DISENTANGLER_TRIPARTITE_DECOMPOSITION"
    and "can_record
           (check_debug_level env dd' LOG_DISENTANGLER_TRIPARTITE_DECOMPOSITION_ITERATION_INFO)
           (check_debug_level env dd'
              LOG_PER_ITERATION_DEBUG_INFO_DISENTANGLER_TRIPARTITE_DECOMPOSITION)
           trm_run_keys trm_iteration_keys di dd'"
  shows "fst (disentangle_approx_TRM env theta chi dd' kw) = Inr v"
proof -
  have "disentangle_approx_TRM_call env theta chi dd' kw = Inr call"
    using call_reads_only_the_level(4) [OF assms(3)] assms(1) by simp
  from approx_TRM_returns_iff [OF this assms(2), of v] assms(4) show ?thesis by simp
qed

section \<open>Claims about the diagnostics and the returned value\<close>

text \<open>
  C8: each driver writes to the debug dictionary only under the matching debug level and
  only at its fixed keys. For a run whose engine returned: every entry under another key
  is as before, the per-run keys are untouched with the per-run level off and the
  per-iteration keys with the per-iteration level off; whenever the statements can be
  carried out the driver returns, the counters (\<open>N_iters_disentangler\<close> and, for
  conjugate gradients, the two restart counts) have been appended to the lists under
  their keys, and the per-iteration keys (iterates, costs, and step sizes or deltas and
  inner iteration counts) are overwritten with the components of the debug information.
  A run whose engine did not return leaves the dictionary as it was. Nothing is read
  back: what a driver hands to its engine depends on the dictionary only through the
  per-iteration debug level, and the value it returns is the same for every dictionary
  with that level on which the statements can be carried out.
\<close>

theorem debug_dictionary_is_write_only:
  "(\<forall>call v n a b di.
       disentangle_CG_call env theta chi dd kw = Inr call
       \<and> cg_optimize env call = Inr (v, n, a, b, di)
       \<longrightarrow> recorded
            (check_debug_level env dd LOG_DISENTANGLER_TRIPARTITE_DECOMPOSITION_ITERATION_INFO)
            (check_debug_level env dd
               LOG_PER_ITERATION_DEBUG_INFO_DISENTANGLER_TRIPARTITE_DECOMPOSITION)
            cg_run_keys cg_iteration_keys [n, a, b] di dd
            (disentangle_CG env theta chi dd kw)
          \<and> (\<forall>dd'.
               check_debug_level env dd'
                 LOG_PER_ITERATION_DEBUG_INFO_DISENTANGLER_TRIPARTITE_DECOMPOSITION
               = check_debug_level env dd
                 LOG_PER_ITERATION_DEBUG_INFO_DISENTANGLER_TRIPARTITE_DECOMPOSITION
               \<and> can_record
                   (check_debug_level env dd'
                      LOG_DISENTANGLER_TRIPARTITE_DECOMPOSITION_ITERATION_INFO)
                   (check_debug_level env dd'
                      LOG_PER_ITERATION_DEBUG_INFO_DISENTANGLER_TRIPARTITE_DECOMPOSITION)
                   cg_run_keys cg_iteration_keys di dd'
               \<longrightarrow> fst (disentangle_CG env theta chi dd' kw) = Inr v))
   \<and> (\<forall>call v n a b di.
       disentangle_approx_CG_call env theta chi dd kw = Inr call
       \<and> cg_optimize env call = Inr (v, n, a, b, di)
       \<longrightarrow> recorded
            (check_debug_level env dd LOG_DISENTANGLER_TRIPARTITE_DECOMPOSITION_ITERATION_INFO)
            (check_debug_level env dd
               LOG_PER_ITERATION_DEBUG_INFO_DISENTANGLER_TRIPARTITE_DECOMPOSITION)
            cg_run_keys cg_iteration_keys [n, a, b] di dd
            (disentangle_approx_CG env theta chi dd kw)
          \<and> (\<forall>dd'.
               check_debug_level env dd'
                 LOG_PER_ITERATION_DEBUG_INFO_DISENTANGLER_TRIPARTITE_DECOMPOSITION
               = check_debug_level env dd
                 LOG_PER_ITERATION_DEBUG_INFO_DISENTANGLER_TRIPARTITE_DECOMPOSITION
               \<and> can_record
                   (check_debug_level env dd'
                      LOG_DISENTANGLER_TRIPARTITE_DECOMPOSITION_ITERATION_INFO)
                   (check_debug_level env dd'
                      LOG_PER_ITERATION_DEBUG_INFO_DISENTANGLER_TRIPARTITE_DECOMPOSITION)
                   cg_run_keys cg_iteration_keys di dd'
               \<longrightarrow> fst (disentangle_approx_CG env theta chi dd' kw) = Inr v))
   \<and> (\<forall>call v n di.
       disentangle_TRM_call env theta chi dd kw = Inr call
       \<and> trm_optimize env call = Inr (v, n, di)
       \<longrightarrow> recorded
            (check_debug_level env dd LOG_DISENTANGLER_TRIPARTITE_DECOMPOSITION_ITERATION_INFO)
            (check_debug_level env dd
               LOG_PER_ITERATION_DEBUG_INFO_DISENTANGLER_TRIPARTITE_DECOMPOSITION)
            trm_run_keys trm_iteration_keys [n] di dd
            (disentangle_TRM env theta chi dd kw)
          \<and> (\<forall>dd'.
               check_debug_level env dd'
                 LOG_PER_ITERATION_DEBUG_INFO_DISENTANGLER_TRIPARTITE_DECOMPOSITION
               = check_debug_level env dd
                 LOG_PER_ITERATION_DEBUG_INFO_DISENTANGLER_TRIPARTITE_DECOMPOSITION
               \<and> can_record
                   (check_debug_level env dd'
                      LOG_DISENTANGLER_TRIPARTITE_DECOMPOSITION_ITERATION_INFO)
                   (check_debug_level env dd'
                      LOG_PER_ITERATION_DEBUG_INFO_DISENTANGLER_TRIPARTITE_DECOMPOSITION)
                   trm_run_keys trm_iteration_keys di dd'
               \<longrightarrow> fst (disentangle_TRM env theta chi dd' kw) = Inr v))
   \<and> (\<forall>call v n di.
       disentangle_approx_TRM_call env theta chi dd kw = Inr call
       \<and> trm_optimize env call = Inr (v, n, di)
       \<longrightarrow> recorded
            (check_debug_level env dd LOG_DISENTANGLER_TRIPARTITE_DECOMPOSITION_ITERATION_INFO)
            (check_debug_level env dd
               LOG_PER_ITERATION_DEBUG_INFO_DISENTANGLER_TRIPARTITE_DECOMPOSITION)
            trm_run_keys trm_iteration_keys [n] di dd
            (disentangle_approx_TRM env theta chi dd kw)
          \<and> (\<forall>dd'.
               check_debug_level env dd'
                 LOG_PER_ITERATION_DEBUG_INFO_DISENTANGLER_TRIPARTITE_DECOMPOSITION
               = check_debug_level env dd
                 LOG_PER_ITERATION_DEBUG_INFO_DISENTANGLER_TRIPARTITE_DECOMPOSITION
               \<and> can_record
                   (check_debug_level env dd'
                      LOG_DISENTANGLER_TRIPARTITE_DECOMPOSITION_ITERATION_INFO)
                   (check_debug_level env dd'
                      LOG_PER_ITERATION_DEBUG_INFO_DISENTANGLER_TRIPARTITE_DECOMPOSITION)
                   trm_run_keys trm_iteration_keys di dd'
               \<longrightarrow> fst (disentangle_approx_TRM env theta chi dd' kw) = Inr v))
   \<and> ((\<forall>call v n a b di. disentangle_CG_call env theta chi dd kw = Inr call
           \<longrightarrow> cg_optimize env call \<noteq> Inr (v, n, a, b, di))
        \<longrightarrow> snd (disentangle_CG env theta chi dd kw) = dd)
   \<and> ((\<forall>call v n a b di. disentangle_approx_CG_call env theta chi dd kw = Inr call
           \<longrightarrow> cg_optimize env call \<noteq> Inr (v, n, a, b, di))
        \<longrightarrow> snd (disentangle_approx_CG env theta chi dd kw) = dd)
   \<and> ((\<forall>call v n di. disentangle_TRM_call env theta chi dd kw = Inr call
           \<longrightarrow> trm_optimize env call \<noteq> Inr (v, n, di))
        \<longrightarrow> snd (disentangle_TRM env theta chi dd kw) = dd)
   \<and> ((\<forall>call v n di. disentangle_approx_TRM_call env theta chi dd kw = Inr call
           \<longrightarrow> trm_optimize env call \<noteq> Inr (v, n, di))
        \<longrightarrow> snd (disentangle_approx_TRM env theta chi dd kw) = dd)
   \<and> (\<forall>dd'. check_debug_level env dd'
               LOG_PER_ITERATION_DEBUG_INFO_DISENTANGLER_TRIPARTITE_DECOMPOSITION
             = check_debug_level env dd
               LOG_PER_ITERATION_DEBUG_INFO_DISENTANGLER_TRIPARTITE_DECOMPOSITION
        \<longrightarrow> disentangle_CG_call env theta chi dd' kw = disentangle_CG_call env theta chi dd kw
          \<and> disentangle_approx_CG_call env theta chi dd' kw
              = disentangle_approx_CG_call env theta chi dd kw
          \<and> disentangle_TRM_call env theta chi dd' kw
              = disentangle_TRM_call env theta chi dd kw
          \<and> disentangle_approx_TRM_call env theta chi dd' kw
              = disentangle_approx_TRM_call env theta chi dd kw)"
proof (intro conjI allI impI, goal_cases)
  case (1 call v n a b di)
  then show ?case using CG_recorded by blast
next
  case (2 call v n a b di dd')
  then show ?case using CG_same_value by blast
next
  case (3 call v n a b di)
  then show ?case using approx_CG_recorded by blast
next
  case (4 call v n a b di dd')
  then show ?case using approx_CG_same_value by blast
next
  case (5 call v n di)
  then show ?case using TRM_recorded by blast
next
  case (6 call v n di dd')
  then show ?case using TRM_same_value by blast
next
  case (7 call v n di)
  then show ?case using approx_TRM_recorded by blast
next
  case (8 call v n di dd')
  then show ?case using approx_TRM_same_value by blast
next
  case 9
  then show ?case by (rule untouched_without_engine_result(1))
next
  case 10
  then show ?case by (rule untouched_without_engine_result(2))
next
  case 11
  then show ?case by (rule untouched_without_engine_result(3))
next
  case 12
  then show ?case by (rule untouched_without_engine_result(4))
next
  case (13 dd')
  then show ?case by (rule call_reads_only_the_level(1))
next
  case (14 dd')
  then show ?case by (rule call_reads_only_the_level(2))
next
  case (15 dd')
  then show ?case by (rule call_reads_only_the_level(3))
next
  case (16 dd')
  then show ?case by (rule call_reads_only_the_level(4))
qed

lemma sample_levels:
  "check_debug_level (one_step_env True True) (Some sample_debug_dict)
     LOG_DISENTANGLER_TRIPARTITE_DECOMPOSITION_ITERATION_INFO"
  "check_debug_level (one_step_env True True) (Some sample_debug_dict)
     LOG_PER_ITERATION_DEBUG_INFO_DISENTANGLER_TRIPARTITE_DECOMPOSITION"
  "check_debug_level (point_env True True) (Some sample_debug_dict)
     LOG_DISENTANGLER_TRIPARTITE_DECOMPOSITION_ITERATION_INFO"
  "check_debug_level (point_env True True) (Some sample_debug_dict)
     LOG_PER_ITERATION_DEBUG_INFO_DISENTANGLER_TRIPARTITE_DECOMPOSITION"
  by (simp_all add: one_step_env_def point_env_def)


lemma sample_shape: "shape sample_theta = [1, 2, 2, 1]"
  by (simp add: sample_theta_def)







theorem debug_dictionary_is_write_only_witness:
  "\<not> isl (fst (disentangle_CG (one_step_env True True) sample_theta 2
                  (Some sample_debug_dict) []))
   \<and> lookup (snd (disentangle_CG (one_step_env True True) sample_theta 2
                  (Some sample_debug_dict) [])) ''N_iters_disentangler''
     = Some (PyList [PyInt 4, PyInt 1])
   \<and> lookup (snd (disentangle_CG (one_step_env True True) sample_theta 2
                  (Some sample_debug_dict) [])) ''disentangler_step_sizes''
     = Some (PyList [PyFloat 1])
   \<and> lookup (snd (disentangle_CG (one_step_env True True) sample_theta 2
                  (Some sample_debug_dict) [])) ''note''
     = Some (PyStr ''kept'')
   \<and> \<not> isl (fst (disentangle_approx_CG (one_step_env True True) sample_theta 2
                  (Some sample_debug_dict) []))
   \<and> lookup (snd (disentangle_approx_CG (one_step_env True True) sample_theta 2
                  (Some sample_debug_dict) [])) ''N_iters_disentangler''
     = Some (PyList [PyInt 4, PyInt 1])
   \<and> lookup (snd (disentangle_approx_CG (one_step_env True True) sample_theta 2
                  (Some sample_debug_dict) [])) ''disentangler_costs''
     = Some (PyList [PyFloat 0])
   \<and> lookup (snd (disentangle_approx_CG (one_step_env True True) sample_theta 2
                  (Some sample_debug_dict) [])) ''note''
     = Some (PyStr ''kept'')
   \<and> \<not> isl (fst (disentangle_TRM (one_step_env True True) sample_theta 2
                  (Some sample_debug_dict) []))
   \<and> lookup (snd (disentangle_TRM (one_step_env True True) sample_theta 2
                  (Some sample_debug_dict) [])) ''N_iters_disentangler''
     = Some (PyList [PyInt 4, PyInt 1])
   \<and> lookup (snd (disentangle_TRM (one_step_env True True) sample_theta 2
                  (Some sample_debug_dict) [])) ''disentangler_tCG_iters''
     = Some (PyList [PyInt 3])
   \<and> lookup (snd (disentangle_TRM (one_step_env True True) sample_theta 2
                  (Some sample_debug_dict) [])) ''note''
     = Some (PyStr ''kept'')
   \<and> \<not> isl (fst (disentangle_approx_TRM (one_step_env True True) sample_theta 2
                  (Some sample_debug_dict) []))
   \<and> lookup (snd (disentangle_approx_TRM (one_step_env True True) sample_theta 2
                  (Some sample_debug_dict) [])) ''N_iters_disentangler''
     = Some (PyList [PyInt 4, PyInt 1])
   \<and> lookup (snd (disentangle_approx_TRM (one_step_env True True) sample_theta 2
                  (Some sample_debug_dict) [])) ''disentangler_deltas''
     = Some (PyList [PyFloat 1])
   \<and> lookup (snd (disentangle_approx_TRM (one_step_env True True) sample_theta 2
                  (Some sample_debug_dict) [])) ''note''
     = Some (PyStr ''kept'')"
proof -
  let ?E = "one_step_env True True"
  let ?dd = "Some sample_debug_dict"
  note all = debug_dictionary_is_write_only [of ?E sample_theta 2 ?dd "[]"]
  have cg: "\<not> isl (fst (disentangle_CG ?E sample_theta 2 ?dd []))
      \<and> lookup (snd (disentangle_CG ?E sample_theta 2 ?dd [])) ''N_iters_disentangler''
          = Some (PyList [PyInt 4, PyInt 1])
      \<and> lookup (snd (disentangle_CG ?E sample_theta 2 ?dd [])) ''disentangler_step_sizes'' = Some (PyList [PyFloat 1])
      \<and> lookup (snd (disentangle_CG ?E sample_theta 2 ?dd [])) ''note'' = Some (PyStr ''kept'')"
  proof -
    let ?out = "disentangle_CG ?E sample_theta 2 ?dd []"
    from call_is_built(1) [OF sample_shape, of ?E 2 ?dd "[]"]
    obtain call where c: "disentangle_CG_call ?E sample_theta 2 ?dd [] = Inr call" by blast
    have "log_debug_info call" using CG_call_flag [OF c] sample_levels(2) by simp
    then have e: "cg_optimize ?E call =
        Inr (construct_iterate call (hd (object_args (initial_iterate call)))
               (initial_iterate call),
             PyInt 1, PyInt 0, PyInt 0, Some [PyList [PyStr ''U''], PyList [PyFloat 0], PyList [PyFloat 1]])"
      by (simp add: one_step_env_def)
    note this_run = all [THEN conjunct1]
    have "recorded
          (check_debug_level ?E ?dd LOG_DISENTANGLER_TRIPARTITE_DECOMPOSITION_ITERATION_INFO)
          (check_debug_level ?E ?dd
             LOG_PER_ITERATION_DEBUG_INFO_DISENTANGLER_TRIPARTITE_DECOMPOSITION)
          cg_run_keys cg_iteration_keys [PyInt 1, PyInt 0, PyInt 0]
          (Some [PyList [PyStr ''U''], PyList [PyFloat 0], PyList [PyFloat 1]]) ?dd ?out"
      using this_run [rule_format, OF conjI [OF c e]] by (rule conjunct1)
    with sample_levels(1,2) have r: "recorded True True cg_run_keys cg_iteration_keys [PyInt 1, PyInt 0, PyInt 0]
          (Some [PyList [PyStr ''U''], PyList [PyFloat 0], PyList [PyFloat 1]]) ?dd ?out"
      by simp
    have can: "can_record True True cg_run_keys cg_iteration_keys (Some [PyList [PyStr ''U''], PyList [PyFloat 0], PyList [PyFloat 1]]) ?dd"
      by (simp add: can_record_def appendable_def cg_run_keys_def cg_iteration_keys_def sample_debug_dict_def)
    have returned: "\<not> isl (fst ?out)"
      and frame: "\<forall>k. k \<notin> set cg_run_keys \<union> set cg_iteration_keys
          \<longrightarrow> lookup (snd ?out) k = lookup ?dd k"
      and counters: "\<forall>(k, c) \<in> set (zip cg_run_keys [PyInt 1, PyInt 0, PyInt 0]).
          lookup (snd ?out) k = Some (PyList (items_at ?dd k @ [c]))"
      and per_iteration: "\<forall>(i, k) \<in> set (enumerate 0 cg_iteration_keys).
          \<exists>x. getitem (Some [PyList [PyStr ''U''], PyList [PyFloat 0], PyList [PyFloat 1]]) i = Inr x \<and> lookup (snd ?out) k = Some x"
      using r can unfolding recorded_def by blast+
    have 1: "lookup (snd ?out) ''N_iters_disentangler'' = Some (PyList [PyInt 4, PyInt 1])"
      using counters
      by (simp add: cg_run_keys_def items_at_def lookup_def sample_debug_dict_def)
    have 2: "lookup (snd ?out) ''disentangler_step_sizes'' = Some (PyList [PyFloat 1])"
      using per_iteration by (simp add: cg_iteration_keys_def getitem_def)
    have 3: "lookup (snd ?out) ''note'' = Some (PyStr ''kept'')"
      using frame
      by (simp add: cg_run_keys_def cg_iteration_keys_def lookup_def sample_debug_dict_def)
    from returned 1 2 3 show ?thesis by (intro conjI)
  qed
  have acg: "\<not> isl (fst (disentangle_approx_CG ?E sample_theta 2 ?dd []))
      \<and> lookup (snd (disentangle_approx_CG ?E sample_theta 2 ?dd [])) ''N_iters_disentangler''
          = Some (PyList [PyInt 4, PyInt 1])
      \<and> lookup (snd (disentangle_approx_CG ?E sample_theta 2 ?dd [])) ''disentangler_costs'' = Some (PyList [PyFloat 0])
      \<and> lookup (snd (disentangle_approx_CG ?E sample_theta 2 ?dd [])) ''note'' = Some (PyStr ''kept'')"
  proof -
    let ?out = "disentangle_approx_CG ?E sample_theta 2 ?dd []"
    from call_is_built(2) [OF sample_shape, of ?E 2 ?dd "[]"]
    obtain call where c: "disentangle_approx_CG_call ?E sample_theta 2 ?dd [] = Inr call" by blast
    have "log_debug_info call" using approx_CG_call_flag [OF c] sample_levels(2) by simp
    then have e: "cg_optimize ?E call =
        Inr (construct_iterate call (hd (object_args (initial_iterate call)))
               (initial_iterate call),
             PyInt 1, PyInt 0, PyInt 0, Some [PyList [PyStr ''U''], PyList [PyFloat 0], PyList [PyFloat 1]])"
      by (simp add: one_step_env_def)
    note this_run = all [THEN conjunct2, THEN conjunct1]
    have "recorded
          (check_debug_level ?E ?dd LOG_DISENTANGLER_TRIPARTITE_DECOMPOSITION_ITERATION_INFO)
          (check_debug_level ?E ?dd
             LOG_PER_ITERATION_DEBUG_INFO_DISENTANGLER_TRIPARTITE_DECOMPOSITION)
          cg_run_keys cg_iteration_keys [PyInt 1, PyInt 0, PyInt 0]
          (Some [PyList [PyStr ''U''], PyList [PyFloat 0], PyList [PyFloat 1]]) ?dd ?out"
      using this_run [rule_format, OF conjI [OF c e]] by (rule conjunct1)
    with sample_levels(1,2) have r: "recorded True True cg_run_keys cg_iteration_keys [PyInt 1, PyInt 0, PyInt 0]
          (Some [PyList [PyStr ''U''], PyList [PyFloat 0], PyList [PyFloat 1]]) ?dd ?out"
      by simp
    have can: "can_record True True cg_run_keys cg_iteration_keys (Some [PyList [PyStr ''U''], PyList [PyFloat 0], PyList [PyFloat 1]]) ?dd"
      by (simp add: can_record_def appendable_def cg_run_keys_def cg_iteration_keys_def sample_debug_dict_def)
    have returned: "\<not> isl (fst ?out)"
      and frame: "\<forall>k. k \<notin> set cg_run_keys \<union> set cg_iteration_keys
          \<longrightarrow> lookup (snd ?out) k = lookup ?dd k"
      and counters: "\<forall>(k, c) \<in> set (zip cg_run_keys [PyInt 1, PyInt 0, PyInt 0]).
          lookup (snd ?out) k = Some (PyList (items_at ?dd k @ [c]))"
      and per_iteration: "\<forall>(i, k) \<in> set (enumerate 0 cg_iteration_keys).
          \<exists>x. getitem (Some [PyList [PyStr ''U''], PyList [PyFloat 0], PyList [PyFloat 1]]) i = Inr x \<and> lookup (snd ?out) k = Some x"
      using r can unfolding recorded_def by blast+
    have 1: "lookup (snd ?out) ''N_iters_disentangler'' = Some (PyList [PyInt 4, PyInt 1])"
      using counters
      by (simp add: cg_run_keys_def items_at_def lookup_def sample_debug_dict_def)
    have 2: "lookup (snd ?out) ''disentangler_costs'' = Some (PyList [PyFloat 0])"
      using per_iteration by (simp add: cg_iteration_keys_def getitem_def)
    have 3: "lookup (snd ?out) ''note'' = Some (PyStr ''kept'')"
      using frame
      by (simp add: cg_run_keys_def cg_iteration_keys_def lookup_def sample_debug_dict_def)
    from returned 1 2 3 show ?thesis by (intro conjI)
  qed
  have trm: "\<not> isl (fst (disentangle_TRM ?E sample_theta 2 ?dd []))
      \<and> lookup (snd (disentangle_TRM ?E sample_theta 2 ?dd [])) ''N_iters_disentangler''
          = Some (PyList [PyInt 4, PyInt 1])
      \<and> lookup (snd (disentangle_TRM ?E sample_theta 2 ?dd [])) ''disentangler_tCG_iters'' = Some (PyList [PyInt 3])
      \<and> lookup (snd (disentangle_TRM ?E sample_theta 2 ?dd [])) ''note'' = Some (PyStr ''kept'')"
  proof -
    let ?out = "disentangle_TRM ?E sample_theta 2 ?dd []"
    from call_is_built(3) [OF sample_shape, of ?E 2 ?dd "[]"]
    obtain call where c: "disentangle_TRM_call ?E sample_theta 2 ?dd [] = Inr call" by blast
    have "log_debug_info call" using TRM_call_flag [OF c] sample_levels(2) by simp
    then have e: "trm_optimize ?E call =
        Inr (construct_iterate call (hd (object_args (initial_iterate call)))
               (initial_iterate call),
             PyInt 1, Some [PyList [PyStr ''U''], PyList [PyFloat 0], PyList [PyFloat 1], PyList [PyInt 3]])"
      by (simp add: one_step_env_def)
    note this_run = all [THEN conjunct2, THEN conjunct2, THEN conjunct1]
    have "recorded
          (check_debug_level ?E ?dd LOG_DISENTANGLER_TRIPARTITE_DECOMPOSITION_ITERATION_INFO)
          (check_debug_level ?E ?dd
             LOG_PER_ITERATION_DEBUG_INFO_DISENTANGLER_TRIPARTITE_DECOMPOSITION)
          trm_run_keys trm_iteration_keys [PyInt 1]
          (Some [PyList [PyStr ''U''], PyList [PyFloat 0], PyList [PyFloat 1], PyList [PyInt 3]]) ?dd ?out"
      using this_run [rule_format, OF conjI [OF c e]] by (rule conjunct1)
    with sample_levels(1,2) have r: "recorded True True trm_run_keys trm_iteration_keys [PyInt 1]
          (Some [PyList [PyStr ''U''], PyList [PyFloat 0], PyList [PyFloat 1], PyList [PyInt 3]]) ?dd ?out"
      by simp
    have can: "can_record True True trm_run_keys trm_iteration_keys (Some [PyList [PyStr ''U''], PyList [PyFloat 0], PyList [PyFloat 1], PyList [PyInt 3]]) ?dd"
      by (simp add: can_record_def appendable_def trm_run_keys_def trm_iteration_keys_def sample_debug_dict_def)
    have returned: "\<not> isl (fst ?out)"
      and frame: "\<forall>k. k \<notin> set trm_run_keys \<union> set trm_iteration_keys
          \<longrightarrow> lookup (snd ?out) k = lookup ?dd k"
      and counters: "\<forall>(k, c) \<in> set (zip trm_run_keys [PyInt 1]).
          lookup (snd ?out) k = Some (PyList (items_at ?dd k @ [c]))"
      and per_iteration: "\<forall>(i, k) \<in> set (enumerate 0 trm_iteration_keys).
          \<exists>x. getitem (Some [PyList [PyStr ''U''], PyList [PyFloat 0], PyList [PyFloat 1], PyList [PyInt 3]]) i = Inr x \<and> lookup (snd ?out) k = Some x"
      using r can unfolding recorded_def by blast+
    have 1: "lookup (snd ?out) ''N_iters_disentangler'' = Some (PyList [PyInt 4, PyInt 1])"
      using counters
      by (simp add: trm_run_keys_def items_at_def lookup_def sample_debug_dict_def)
    have 2: "lookup (snd ?out) ''disentangler_tCG_iters'' = Some (PyList [PyInt 3])"
      using per_iteration by (simp add: trm_iteration_keys_def getitem_def)
    have 3: "lookup (snd ?out) ''note'' = Some (PyStr ''kept'')"
      using frame
      by (simp add: trm_run_keys_def trm_iteration_keys_def lookup_def sample_debug_dict_def)
    from returned 1 2 3 show ?thesis by (intro conjI)
  qed
  have atrm: "\<not> isl (fst (disentangle_approx_TRM ?E sample_theta 2 ?dd []))
      \<and> lookup (snd (disentangle_approx_TRM ?E sample_theta 2 ?dd [])) ''N_iters_disentangler''
          = Some (PyList [PyInt 4, PyInt 1])
      \<and> lookup (snd (disentangle_approx_TRM ?E sample_theta 2 ?dd [])) ''disentangler_deltas'' = Some (PyList [PyFloat 1])
      \<and> lookup (snd (disentangle_approx_TRM ?E sample_theta 2 ?dd [])) ''note'' = Some (PyStr ''kept'')"
  proof -
    let ?out = "disentangle_approx_TRM ?E sample_theta 2 ?dd []"
    from call_is_built(4) [OF sample_shape, of ?E 2 ?dd "[]"]
    obtain call where c: "disentangle_approx_TRM_call ?E sample_theta 2 ?dd [] = Inr call" by blast
    have "log_debug_info call" using approx_TRM_call_flag [OF c] sample_levels(2) by simp
    then have e: "trm_optimize ?E call =
        Inr (construct_iterate call (hd (object_args (initial_iterate call)))
               (initial_iterate call),
             PyInt 1, Some [PyList [PyStr ''U''], PyList [PyFloat 0], PyList [PyFloat 1], PyList [PyInt 3]])"
      by (simp add: one_step_env_def)
    note this_run = all [THEN conjunct2, THEN conjunct2, THEN conjunct2, THEN conjunct1]
    have "recorded
          (check_debug_level ?E ?dd LOG_DISENTANGLER_TRIPARTITE_DECOMPOSITION_ITERATION_INFO)
          (check_debug_level ?E ?dd
             LOG_PER_ITERATION_DEBUG_INFO_DISENTANGLER_TRIPARTITE_DECOMPOSITION)
          trm_run_keys trm_iteration_keys [PyInt 1]
          (Some [PyList [PyStr ''U''], PyList [PyFloat 0], PyList [PyFloat 1], PyList [PyInt 3]]) ?dd ?out"
      using this_run [rule_format, OF conjI [OF c e]] by (rule conjunct1)
    with sample_levels(1,2) have r: "recorded True True trm_run_keys trm_iteration_keys [PyInt 1]
          (Some [PyList [PyStr ''U''], PyList [PyFloat 0], PyList [PyFloat 1], PyList [PyInt 3]]) ?dd ?out"
      by simp
    have can: "can_record True True trm_run_keys trm_iteration_keys (Some [PyList [PyStr ''U''], PyList [PyFloat 0], PyList [PyFloat 1], PyList [PyInt 3]]) ?dd"
      by (simp add: can_record_def appendable_def trm_run_keys_def trm_iteration_keys_def sample_debug_dict_def)
    have returned: "\<not> isl (fst ?out)"
      and frame: "\<forall>k. k \<notin> set trm_run_keys \<union> set trm_iteration_keys
          \<longrightarrow> lookup (snd ?out) k = lookup ?dd k"
      and counters: "\<forall>(k, c) \<in> set (zip trm_run_keys [PyInt 1]).
          lookup (snd ?out) k = Some (PyList (items_at ?dd k @ [c]))"
      and per_iteration: "\<forall>(i, k) \<in> set (enumerate 0 trm_iteration_keys).
          \<exists>x. getitem (Some [PyList [PyStr ''U''], PyList [PyFloat 0], PyList [PyFloat 1], PyList [PyInt 3]]) i = Inr x \<and> lookup (snd ?out) k = Some x"
      using r can unfolding recorded_def by blast+
    have 1: "lookup (snd ?out) ''N_iters_disentangler'' = Some (PyList [PyInt 4, PyInt 1])"
      using counters
      by (simp add: trm_run_keys_def items_at_def lookup_def sample_debug_dict_def)
    have 2: "lookup (snd ?out) ''disentangler_deltas'' = Some (PyList [PyFloat 1])"
      using per_iteration by (simp add: trm_iteration_keys_def getitem_def)
    have 3: "lookup (snd ?out) ''note'' = Some (PyStr ''kept'')"
      using frame
      by (simp add: trm_run_keys_def trm_iteration_keys_def lookup_def sample_debug_dict_def)
    from returned 1 2 3 show ?thesis by (intro conjI)
  qed
  from cg acg trm atrm show ?thesis by (elim conjE) (intro conjI; assumption)
qed



end
